theory Spec2Isabelle
  imports Complex_Main
begin

section \<open>JavaScript numbers\<close>

text \<open>
  A JavaScript number is an IEEE-754 double. The model keeps the four classes the code
  distinguishes: a finite value (idealised as an exact real: no rounding, no overflow,
  a single unsigned zero that behaves as \<open>+0\<close>), the two infinities and \<open>NaN\<close>.
  The arithmetic below follows IEEE-754 on these classes: every comparison with \<open>NaN\<close>
  is false, \<open>0/0\<close> and \<open>Infinity - Infinity\<close> are \<open>NaN\<close>, \<open>x/0\<close> is an infinity.
\<close>

datatype jsnum = Fin real | PInf | NInf | NaN

fun js_neg :: "jsnum \<Rightarrow> jsnum" where
  "js_neg (Fin a) = Fin (- a)"
| "js_neg PInf = NInf"
| "js_neg NInf = PInf"
| "js_neg NaN = NaN"

fun js_add :: "jsnum \<Rightarrow> jsnum \<Rightarrow> jsnum" where
  "js_add NaN _ = NaN"
| "js_add _ NaN = NaN"
| "js_add (Fin a) (Fin b) = Fin (a + b)"
| "js_add PInf NInf = NaN"
| "js_add NInf PInf = NaN"
| "js_add PInf _ = PInf"
| "js_add _ PInf = PInf"
| "js_add NInf _ = NInf"
| "js_add _ NInf = NInf"

definition js_sub :: "jsnum \<Rightarrow> jsnum \<Rightarrow> jsnum" where
  "js_sub x y = js_add x (js_neg y)"

text \<open>The sign of a number, \<open>None\<close> for \<open>NaN\<close>; zero counts as positive zero.\<close>

fun js_sign :: "jsnum \<Rightarrow> int option" where
  "js_sign (Fin a) = Some (if a < 0 then - 1 else if a = 0 then 0 else 1)"
| "js_sign PInf = Some 1"
| "js_sign NInf = Some (- 1)"
| "js_sign NaN = None"

fun js_mul :: "jsnum \<Rightarrow> jsnum \<Rightarrow> jsnum" where
  "js_mul (Fin a) (Fin b) = Fin (a * b)"
| "js_mul x y =
     (case (js_sign x, js_sign y) of
        (Some s, Some t) \<Rightarrow> (if s * t = 0 then NaN else if s * t > 0 then PInf else NInf)
      | _ \<Rightarrow> NaN)"

fun js_div :: "jsnum \<Rightarrow> jsnum \<Rightarrow> jsnum" where
  "js_div NaN _ = NaN"
| "js_div _ NaN = NaN"
| "js_div (Fin a) (Fin b) =
     (if b = 0 then (if a = 0 then NaN else if a > 0 then PInf else NInf)
      else Fin (a / b))"
| "js_div (Fin a) _ = Fin 0"
| "js_div PInf (Fin b) = (if b < 0 then NInf else PInf)"
| "js_div NInf (Fin b) = (if b < 0 then PInf else NInf)"
| "js_div _ _ = NaN"

fun js_sqrt :: "jsnum \<Rightarrow> jsnum" where
  "js_sqrt (Fin a) = (if a < 0 then NaN else Fin (sqrt a))"
| "js_sqrt PInf = PInf"
| "js_sqrt NInf = NaN"
| "js_sqrt NaN = NaN"

fun js_abs :: "jsnum \<Rightarrow> jsnum" where
  "js_abs (Fin a) = Fin \<bar>a\<bar>"
| "js_abs PInf = PInf"
| "js_abs NInf = PInf"
| "js_abs NaN = NaN"

text \<open>\<open>Math.pow(x, 2)\<close>.\<close>

definition js_pow2 :: "jsnum \<Rightarrow> jsnum" where
  "js_pow2 x = js_mul x x"

fun js_lt :: "jsnum \<Rightarrow> jsnum \<Rightarrow> bool" where
  "js_lt NaN _ = False"
| "js_lt _ NaN = False"
| "js_lt (Fin a) (Fin b) = (a < b)"
| "js_lt NInf NInf = False"
| "js_lt NInf _ = True"
| "js_lt _ NInf = False"
| "js_lt PInf _ = False"
| "js_lt _ PInf = True"

fun js_le :: "jsnum \<Rightarrow> jsnum \<Rightarrow> bool" where
  "js_le NaN _ = False"
| "js_le _ NaN = False"
| "js_le x y = (x = y \<or> js_lt x y)"

definition js_gt :: "jsnum \<Rightarrow> jsnum \<Rightarrow> bool" where
  "js_gt x y = js_lt y x"

text \<open>
  \<open>x.toFixed(d)\<close> takes the integer \<open>n\<close> with \<open>n / 10^d\<close> nearest to \<open>|x|\<close>, the larger
  one on a tie, and keeps the sign of \<open>x\<close>.
\<close>

definition toFixed :: "nat \<Rightarrow> real \<Rightarrow> real" where
  "toFixed d x =
     (if x < 0 then - (of_int \<lfloor>- x * 10 ^ d + 1 / 2\<rfloor> / 10 ^ d)
      else of_int \<lfloor>x * 10 ^ d + 1 / 2\<rfloor> / 10 ^ d)"

text \<open>
  \<open>parseFloat(x.toFixed(d))\<close>: \<open>toFixed\<close> prints \<open>NaN\<close> and the infinities by name and
  \<open>parseFloat\<close> reads them back.
\<close>

fun js_toFixed :: "nat \<Rightarrow> jsnum \<Rightarrow> jsnum" where
  "js_toFixed d (Fin a) = Fin (toFixed d a)"
| "js_toFixed d x = x"

section \<open>Descriptive Statistics Reducer\<close>

text \<open>
  An array read \<open>xs[i]\<close>: JavaScript yields \<open>undefined\<close> out of range, the model
  \<open>None\<close>.
\<close>

definition js_index :: "'a list \<Rightarrow> nat \<Rightarrow> 'a option" where
  "js_index xs i = (if i < length xs then Some (xs ! i) else None)"

text \<open>
  \<open>Math.floor(len * q)\<close> for the decimal fraction \<open>q = pct / 100\<close>, computed on the exact
  product.
\<close>

definition pct_index :: "nat \<Rightarrow> nat \<Rightarrow> nat" where
  "pct_index len pct = (len * pct) div 100"

text \<open>
  The fields every consumer of a statistics record reads (\<open>count\<close>, \<open>mean\<close>,
  \<open>stddev\<close>, \<open>cv\<close>), and the record the reducer builds, which adds the order statistics.
\<close>

record stats =
  count :: nat
  mean :: jsnum
  stddev :: jsnum
  cv :: jsnum

record statistics = stats +
  minv :: "real option"
  maxv :: "real option"
  median :: "real option"
  p75 :: "real option"
  p90 :: "real option"
  p95 :: "real option"
  p99 :: "real option"

text \<open>
  \<open>calculateStatistics(values)\<close> on an array of finite numbers; \<open>None\<close> is the \<open>null\<close>
  returned for an empty array.
\<close>

definition calculateStatistics :: "real list \<Rightarrow> statistics option" where
  "calculateStatistics values =
     (if values = [] then None
      else
        let sorted = sort values;
            len = length sorted;
            sum = foldl (+) 0 sorted;
            mean = sum / real len;
            variance = foldl (\<lambda>acc val. acc + (val - mean) ^ 2) 0 sorted / real len;
            stddev = sqrt variance;
            cv = (if mean > 0 then (stddev / mean) * 100 else 0)
        in Some \<lparr>
             count = len,
             mean = Fin (toFixed 2 mean),
             stddev = Fin (toFixed 2 stddev),
             cv = Fin (toFixed 2 cv),
             minv = js_index sorted 0,
             maxv = js_index sorted (len - 1),
             median =
               (if len mod 2 = 0
                then (case (js_index sorted (len div 2 - 1), js_index sorted (len div 2)) of
                        (Some a, Some b) \<Rightarrow> Some ((a + b) / 2)
                      | _ \<Rightarrow> None)
                else js_index sorted (len div 2)),
             p75 = js_index sorted (pct_index len 75),
             p90 = js_index sorted (pct_index len 90),
             p95 = js_index sorted (pct_index len 95),
             p99 = js_index sorted (pct_index len 99)
           \<rparr>)"

section \<open>Two-Sample Comparator\<close>

text \<open>The constants the constructor of \<open>PerformanceComparisonEngine\<close> sets.\<close>

definition confidenceLevel :: jsnum where
  "confidenceLevel = Fin (95 / 100)"

definition significanceThreshold :: jsnum where
  "significanceThreshold = Fin (5 / 100)"

definition regressionThreshold :: jsnum where
  "regressionThreshold = Fin (5 / 100)"

definition calculatePValue :: "jsnum \<Rightarrow> jsnum \<Rightarrow> jsnum" where
  "calculatePValue tStat df =
     (if js_le df (Fin 0) then Fin 1
      else if js_lt tStat (Fin 1) then Fin (5 / 10)
      else if js_lt tStat (Fin 2) then Fin (1 / 10)
      else if js_lt tStat (Fin 3) then Fin (1 / 100)
      else if js_lt tStat (Fin 4) then Fin (1 / 1000)
      else Fin (1 / 10000))"

record ttest =
  tStatistic :: jsnum
  degreesOfFreedom :: jsnum
  pValue :: jsnum

definition welchTTest :: "'a stats_scheme \<Rightarrow> 'b stats_scheme \<Rightarrow> ttest" where
  "welchTTest baseline comparison =
     (let n1 = Fin (real (count baseline));
          n2 = Fin (real (count comparison));
          mean1 = mean baseline;
          mean2 = mean comparison;
          var1 = js_mul (stddev baseline) (stddev baseline);
          var2 = js_mul (stddev comparison) (stddev comparison);
          tStat = js_div (js_sub mean1 mean2)
                    (js_sqrt (js_add (js_div var1 n1) (js_div var2 n2)));
          numerator = js_pow2 (js_add (js_div var1 n1) (js_div var2 n2));
          denominator =
            js_add (js_div (js_pow2 (js_div var1 n1)) (js_sub n1 (Fin 1)))
                   (js_div (js_pow2 (js_div var2 n2)) (js_sub n2 (Fin 1)));
          df = js_div numerator denominator;
          p = calculatePValue (js_abs tStat) df
      in \<lparr> tStatistic = js_toFixed 4 tStat,
           degreesOfFreedom = js_toFixed 2 df,
           pValue = js_toFixed 4 p \<rparr>)"

record change_block =
  absolute :: jsnum
  percent :: jsnum
  direction :: string

record significance_block =
  sig_tStatistic :: jsnum
  sig_pValue :: jsnum
  isSignificant :: bool
  sig_confidenceLevel :: jsnum

text \<open>
  The \<open>summary\<close> of an interpretation is a template string around the percent change;
  the model keeps which template it is and the number printed in it.
\<close>

datatype summary_text =
  SignificantRegression jsnum
| SignificantImprovement jsnum
| SignificantWithinRange jsnum
| NoSignificantChange jsnum

record interpretation_block =
  summary :: summary_text
  significance_text :: string
  magnitude :: string
  recommendation :: string

record comparison_result =
  res_baseline :: stats
  res_comparison :: stats
  change :: change_block
  significance :: significance_block
  interpretation_of :: interpretation_block

definition interpretStatisticalResult ::
  "change_block \<Rightarrow> significance_block \<Rightarrow> interpretation_block" where
  "interpretStatisticalResult chg sig =
     (let absPercent = js_abs (percent chg);
          isRegression = js_gt (percent chg) (js_mul regressionThreshold (Fin 100));
          isImprovement = js_lt (percent chg) (js_mul (js_neg regressionThreshold) (Fin 100))
      in \<lparr> summary =
             (if isSignificant sig then
                (if isRegression then SignificantRegression (percent chg)
                 else if isImprovement then SignificantImprovement (js_abs (percent chg))
                 else SignificantWithinRange (percent chg))
              else NoSignificantChange (percent chg)),
           significance_text =
             (if isSignificant sig then ''statistically significant''
              else ''not statistically significant''),
           magnitude =
             (if js_lt absPercent (Fin 5) then ''small''
              else if js_lt absPercent (Fin 15) then ''medium''
              else ''large''),
           recommendation =
             (if isSignificant sig then
                (if isRegression then ''Investigate and address performance regression''
                 else if isImprovement then ''Performance improvement confirmed''
                 else ''Monitor for consistency'')
              else ''Performance appears stable'') \<rparr>)"

definition performStatisticalTest ::
  "'a stats_scheme \<Rightarrow> 'b stats_scheme \<Rightarrow> comparison_result" where
  "performStatisticalTest baseline comparison =
     (let meanChange = js_sub (mean comparison) (mean baseline);
          meanChangePercent =
            (if js_gt (mean baseline) (Fin 0)
             then js_mul (js_div meanChange (mean baseline)) (Fin 100)
             else Fin 0);
          chg = \<lparr> absolute = js_toFixed 2 meanChange,
                  percent = js_toFixed 2 meanChangePercent,
                  direction =
                    (if js_gt meanChange (Fin 0) then ''increase''
                     else if js_lt meanChange (Fin 0) then ''decrease''
                     else ''no-change'') \<rparr>;
          tTest = welchTTest baseline comparison;
          sig = \<lparr> sig_tStatistic = tStatistic tTest,
                  sig_pValue = pValue tTest,
                  isSignificant = js_lt (pValue tTest) significanceThreshold,
                  sig_confidenceLevel = confidenceLevel \<rparr>
      in \<lparr> res_baseline = stats.truncate baseline,
           res_comparison = stats.truncate comparison,
           change = chg,
           significance = sig,
           interpretation_of = interpretStatisticalResult chg sig \<rparr>)"

section \<open>Aggregate Comparison Engine\<close>

text \<open>
  The infrastructure metadata of one run, with the fields the impact rules read. A part
  that is missing (\<open>undefined\<close>) is \<open>None\<close>.
\<close>

record cdn_info =
  cdn_detected :: bool
  cdn_provider :: string

record compression_info =
  cmp_algorithm :: string
  cmp_ratio :: jsnum

record protocol_info =
  http2Support :: bool
  http3Support :: bool

text \<open>
  The security part: its \<open>score\<close> and its \<open>headers\<close> object, each \<open>None\<close> when the
  field is \<open>undefined\<close> or \<open>null\<close> (the analyzer returns \<open>{error: ...}\<close> when it fails). A header
  value is a string or \<open>null\<close>.
\<close>

type_synonym headers = "(string \<times> string option) list"

record security_info =
  sec_score :: "jsnum option"
  sec_headers :: "headers option"

record caching_info =
  cache_effectiveness :: jsnum

record infrastructure =
  cdn :: "cdn_info option"
  compression :: "compression_info option"
  protocols :: "protocol_info option"
  security :: "security_info option"
  caching :: "caching_info option"

text \<open>
  Each \<open>compareX\<close> below is the \<open>impact\<close> field of the object the source returns;
  \<open>None\<close> is the object \<open>{error: ...}\<close> returned when a side is missing, which has no
  \<open>impact\<close>. The other fields of these objects are not read by the summary.
\<close>

definition assessCdnImpact :: "cdn_info \<Rightarrow> cdn_info \<Rightarrow> string" where
  "assessCdnImpact b c =
     (if \<not> cdn_detected b \<and> cdn_detected c then ''positive''
      else if cdn_detected b \<and> \<not> cdn_detected c then ''negative''
      else if cdn_provider b \<noteq> cdn_provider c then ''change''
      else ''neutral'')"

definition compareCdn :: "cdn_info option \<Rightarrow> cdn_info option \<Rightarrow> string option" where
  "compareCdn baseline comparison =
     (case (baseline, comparison) of
        (Some b, Some c) \<Rightarrow> Some (assessCdnImpact b c)
      | _ \<Rightarrow> None)"

definition assessCompressionImpact :: "jsnum \<Rightarrow> string" where
  "assessCompressionImpact improvement =
     (if js_gt improvement (Fin 10) then ''significant-positive''
      else if js_gt improvement (Fin 5) then ''positive''
      else if js_lt improvement (Fin (- 10)) then ''significant-negative''
      else if js_lt improvement (Fin (- 5)) then ''negative''
      else ''neutral'')"

definition compareCompression ::
  "compression_info option \<Rightarrow> compression_info option \<Rightarrow> string option" where
  "compareCompression baseline comparison =
     (case (baseline, comparison) of
        (Some b, Some c) \<Rightarrow>
          Some (assessCompressionImpact
                  (if js_gt (cmp_ratio b) (Fin 0) \<and> js_gt (cmp_ratio c) (Fin 0)
                   then js_mul (js_div (js_sub (cmp_ratio b) (cmp_ratio c)) (cmp_ratio b))
                          (Fin 100)
                   else Fin 0))
      | _ \<Rightarrow> None)"

definition assessProtocolImpact :: "protocol_info \<Rightarrow> protocol_info \<Rightarrow> string" where
  "assessProtocolImpact b c =
     (if \<not> http2Support b \<and> http2Support c then ''positive''
      else if http2Support b \<and> \<not> http2Support c then ''negative''
      else if \<not> http3Support b \<and> http3Support c then ''positive''
      else ''neutral'')"

definition compareProtocols ::
  "protocol_info option \<Rightarrow> protocol_info option \<Rightarrow> string option" where
  "compareProtocols baseline comparison =
     (case (baseline, comparison) of
        (Some b, Some c) \<Rightarrow> Some (assessProtocolImpact b c)
      | _ \<Rightarrow> None)"

text \<open>The elements of a \<open>Set\<close> built from an array: first occurrences, in order.\<close>

fun uniq :: "'a list \<Rightarrow> 'a list" where
  "uniq [] = []"
| "uniq (x # xs) = x # filter (\<lambda>y. y \<noteq> x) (uniq xs)"

text \<open>
  An exception raised inside \<open>compareEnvironments\<close>: \<open>Object.keys\<close> of \<open>undefined\<close>
  or \<open>null\<close> raises a \<open>TypeError\<close>.
\<close>

datatype error = TypeError

text \<open>\<open>ToNumber\<close> of a field read in arithmetic: \<open>undefined\<close> is \<open>NaN\<close>.\<close>

definition toNumber :: "jsnum option \<Rightarrow> jsnum" where
  "toNumber v = (case v of None \<Rightarrow> NaN | Some n \<Rightarrow> n)"

text \<open>
  A header read \<open>h[name]\<close>: \<open>None\<close> is \<open>undefined\<close>, \<open>Some None\<close> is \<open>null\<close>. A value
  is truthy when it is a non-empty string.
\<close>

definition truthy :: "string option option \<Rightarrow> bool" where
  "truthy v = (case v of Some (Some str) \<Rightarrow> str \<noteq> [] | _ \<Rightarrow> False)"

record header_change =
  hc_baseline :: "string option option"
  hc_comparison :: "string option option"
  hc_status :: string

definition compareSecurityHeaders ::
  "headers option \<Rightarrow> headers option \<Rightarrow> error + (string \<times> header_change) list" where
  "compareSecurityHeaders baseline comparison =
     (case (baseline, comparison) of
        (Some b, Some c) \<Rightarrow>
          (let allHeaders = uniq (map fst b @ map fst c)
           in Inr (concat (map (\<lambda>header.
                 let baselineValue = map_of b header;
                     comparisonValue = map_of c header
                 in if baselineValue \<noteq> comparisonValue
                    then [(header,
                           \<lparr>hc_baseline = baselineValue, hc_comparison = comparisonValue,
                            hc_status =
                              (if \<not> truthy baselineValue \<and> truthy comparisonValue
                               then ''added''
                               else if truthy baselineValue \<and> \<not> truthy comparisonValue
                               then ''removed''
                               else ''changed'')\<rparr>)]
                    else []) allHeaders)))
      | _ \<Rightarrow> Inl TypeError)"

text \<open>
  \<open>compareSecurity\<close>: the header comparison runs while the result object is built, so
  its exception leaves \<open>compareSecurity\<close>; otherwise the \<open>impact\<close> is returned.
\<close>

definition compareSecurity ::
  "security_info option \<Rightarrow> security_info option \<Rightarrow> error + string option" where
  "compareSecurity baseline comparison =
     (case (baseline, comparison) of
        (Some b, Some c) \<Rightarrow>
          (let scoreChange = js_sub (toNumber (sec_score c)) (toNumber (sec_score b))
           in case compareSecurityHeaders (sec_headers b) (sec_headers c) of
                Inl e \<Rightarrow> Inl e
              | Inr headerChanges \<Rightarrow>
                  Inr (Some (if js_gt scoreChange (Fin 10) then ''positive''
                             else if js_lt scoreChange (Fin (- 10)) then ''negative''
                             else ''neutral'')))
      | _ \<Rightarrow> Inr None)"

definition compareCaching ::
  "caching_info option \<Rightarrow> caching_info option \<Rightarrow> string option" where
  "compareCaching baseline comparison =
     (case (baseline, comparison) of
        (Some b, Some c) \<Rightarrow>
          (let effectivenessChange = js_sub (cache_effectiveness c) (cache_effectiveness b)
           in Some (if js_gt effectivenessChange (Fin 10) then ''positive''
                    else if js_lt effectivenessChange (Fin (- 10)) then ''negative''
                    else ''neutral''))
      | _ \<Rightarrow> None)"

text \<open>
  The five categories in the order the object literal lists them. Only the security
  comparison can raise.
\<close>

definition compareInfrastructure ::
  "infrastructure \<Rightarrow> infrastructure \<Rightarrow> error + (string \<times> string option) list" where
  "compareInfrastructure baseline comparison =
     (case compareSecurity (security baseline) (security comparison) of
        Inl e \<Rightarrow> Inl e
      | Inr securityImpact \<Rightarrow>
          Inr [(''cdn'', compareCdn (cdn baseline) (cdn comparison)),
               (''compression'',
                  compareCompression (compression baseline) (compression comparison)),
               (''protocols'', compareProtocols (protocols baseline) (protocols comparison)),
               (''security'', securityImpact),
               (''caching'', compareCaching (caching baseline) (caching comparison))])"

text \<open>
  The \<open>statistics\<close> object of a scenario maps a name to a statistics record, to a plain
  number (\<open>validRuns\<close>, \<open>totalRuns\<close>, \<open>successRate\<close>) or to a string (\<open>error\<close>). Objects
  are lists of entries in insertion order; a key is looked up with \<open>map_of\<close>.
\<close>

datatype stat_value = Metric stats | Scalar jsnum | Text string

type_synonym statistics_object = "(string \<times> stat_value) list"

record scenario_result =
  scn_statistics :: "statistics_object option"

record run_result =
  infrastructure_of :: "infrastructure option"
  scenarios :: "(string \<times> scenario_result) list option"

text \<open>\<open>typeof v === 'object' && v?.mean !== undefined\<close>.\<close>

fun isMetric :: "stat_value \<Rightarrow> bool" where
  "isMetric (Metric _) = True"
| "isMetric _ = False"

definition metricKeys :: "statistics_object \<Rightarrow> string list" where
  "metricKeys obj = map fst (filter (\<lambda>(k, v). isMetric v) obj)"

definition compareStatistics ::
  "statistics_object \<Rightarrow> statistics_object \<Rightarrow> (string \<times> comparison_result) list" where
  "compareStatistics baseline comparison =
     (let baselineMetrics = metricKeys baseline;
          comparisonMetrics = metricKeys comparison;
          commonMetrics = filter (\<lambda>m. m \<in> set comparisonMetrics) baselineMetrics
      in concat (map (\<lambda>metric.
            case (map_of baseline metric, map_of comparison metric) of
              (Some (Metric baselineStats), Some (Metric comparisonStats)) \<Rightarrow>
                [(metric, performStatisticalTest baselineStats comparisonStats)]
            | _ \<Rightarrow> []) commonMetrics))"

text \<open>
  \<open>compareScenario\<close>: only the \<open>statistical\<close> part is kept, the part \<open>generateSummary\<close>
  reads; it stays the empty object when a side has no \<open>statistics\<close>.
\<close>

definition compareScenario ::
  "scenario_result \<Rightarrow> scenario_result \<Rightarrow> (string \<times> comparison_result) list" where
  "compareScenario baseline comparison =
     (case (scn_statistics baseline, scn_statistics comparison) of
        (Some b, Some c) \<Rightarrow> compareStatistics b c
      | _ \<Rightarrow> [])"

definition compareScenarios ::
  "(string \<times> scenario_result) list \<Rightarrow> (string \<times> scenario_result) list
     \<Rightarrow> (string \<times> (string \<times> comparison_result) list) list" where
  "compareScenarios baseline comparison =
     (let allScenarios = uniq (map fst baseline @ map fst comparison)
      in concat (map (\<lambda>scenarioName.
            case (map_of baseline scenarioName, map_of comparison scenarioName) of
              (Some baselineScenario, Some comparisonScenario) \<Rightarrow>
                [(scenarioName, compareScenario baselineScenario comparisonScenario)]
            | _ \<Rightarrow> []) allScenarios))"

record analysis =
  an_infrastructure :: "(string \<times> string option) list option"
  an_scenarios :: "(string \<times> (string \<times> comparison_result) list) list option"

text \<open>
  The entries of the summary lists are template strings; the model keeps the template
  and its arguments: \<open>category: impact\<close>, \<open>scenario.metric: percent%\<close> and
  \<open>scenario.metric: +percent%\<close>.
\<close>

datatype summary_entry =
  InfraImpact string string
| MetricChange string string jsnum
| MetricPlus string string jsnum

record run_summary =
  overallImpact :: string
  significantChanges :: "summary_entry list"
  regressions :: "summary_entry list"
  improvements :: "summary_entry list"
  stability :: string

definition infraStep :: "string \<times> string option \<Rightarrow> run_summary \<Rightarrow> run_summary" where
  "infraStep e s =
     (case e of
        (category, Some impact) \<Rightarrow>
          if impact = ''positive'' \<or> impact = ''significant-positive''
          then s\<lparr>improvements := improvements s @ [InfraImpact category impact]\<rparr>
          else if impact = ''negative'' \<or> impact = ''significant-negative''
          then s\<lparr>regressions := regressions s @ [InfraImpact category impact]\<rparr>
          else s
      | (category, None) \<Rightarrow> s)"

definition metricStep ::
  "string \<Rightarrow> string \<times> comparison_result \<Rightarrow> run_summary \<Rightarrow> run_summary" where
  "metricStep scenarioName e s =
     (case e of (metric, result) \<Rightarrow>
        if isSignificant (significance result) then
          (let p = percent (change result);
               s1 = s\<lparr>significantChanges :=
                       significantChanges s @ [MetricChange scenarioName metric p]\<rparr>
           in if js_gt (js_abs p) (Fin 5) then
                (if js_gt p (Fin 0)
                 then s1\<lparr>regressions := regressions s1 @ [MetricPlus scenarioName metric p]\<rparr>
                 else s1\<lparr>improvements :=
                          improvements s1 @ [MetricChange scenarioName metric p]\<rparr>)
              else s1)
        else s)"

definition scenarioStep ::
  "string \<times> (string \<times> comparison_result) list \<Rightarrow> run_summary \<Rightarrow> run_summary" where
  "scenarioStep e s = (case e of (scenarioName, statistical) \<Rightarrow>
     fold (metricStep scenarioName) statistical s)"

definition generateSummary :: "analysis \<Rightarrow> run_summary" where
  "generateSummary a =
     (let s0 = \<lparr> overallImpact = ''neutral'', significantChanges = [], regressions = [],
                 improvements = [], stability = ''stable'' \<rparr>;
          s1 = (case an_infrastructure a of None \<Rightarrow> s0 | Some infra \<Rightarrow> fold infraStep infra s0);
          s2 = (case an_scenarios a of None \<Rightarrow> s1 | Some scs \<Rightarrow> fold scenarioStep scs s1);
          s3 = (if length (regressions s2) > length (improvements s2)
                then s2\<lparr>overallImpact := ''negative''\<rparr>
                else if length (improvements s2) > length (regressions s2)
                then s2\<lparr>overallImpact := ''positive''\<rparr>
                else s2)
      in if length (significantChanges s3) > 5 then s3\<lparr>stability := ''unstable''\<rparr>
         else if length (significantChanges s3) > 2 then s3\<lparr>stability := ''changing''\<rparr>
         else s3)"

text \<open>The summary after both passes, before the impact and the stability are set.\<close>

definition summary_state :: "analysis \<Rightarrow> run_summary" where
  "summary_state a =
     (let s0 = \<lparr> overallImpact = ''neutral'', significantChanges = [], regressions = [],
                 improvements = [], stability = ''stable'' \<rparr>;
          s1 = (case an_infrastructure a of None \<Rightarrow> s0 | Some infra \<Rightarrow> fold infraStep infra s0)
      in (case an_scenarios a of None \<Rightarrow> s1 | Some scs \<Rightarrow> fold scenarioStep scs s1))"

text \<open>
  \<open>compareEnvironments\<close>, up to the summary: each dimension is compared when both sides
  have it, the infrastructure first. An exception is caught: the result then carries the
  \<open>error\<close> and the summary stays the empty object \<open>{}\<close>, which is \<open>Inl\<close> here.
\<close>

definition analyse :: "run_result \<Rightarrow> run_result \<Rightarrow> error + analysis" where
  "analyse baseline comparison =
     (let sc = (case (scenarios baseline, scenarios comparison) of
                  (Some b, Some c) \<Rightarrow> Some (compareScenarios b c)
                | _ \<Rightarrow> None)
      in case (infrastructure_of baseline, infrastructure_of comparison) of
           (Some b, Some c) \<Rightarrow>
             (case compareInfrastructure b c of
                Inl e \<Rightarrow> Inl e
              | Inr infra \<Rightarrow> Inr \<lparr> an_infrastructure = Some infra, an_scenarios = sc \<rparr>)
         | _ \<Rightarrow> Inr \<lparr> an_infrastructure = None, an_scenarios = sc \<rparr>)"

definition compareEnvironments :: "run_result \<Rightarrow> run_result \<Rightarrow> error + run_summary" where
  "compareEnvironments baseline comparison =
     (case analyse baseline comparison of
        Inl e \<Rightarrow> Inl e
      | Inr a \<Rightarrow> Inr (generateSummary a))"

text \<open>A run with no infrastructure data and one scenario holding one metric.\<close>

definition single_metric_run :: "string \<Rightarrow> string \<Rightarrow> stats \<Rightarrow> run_result" where
  "single_metric_run scenarioName metric st =
     \<lparr> infrastructure_of = None,
       scenarios = Some [(scenarioName, \<lparr> scn_statistics = Some [(metric, Metric st)] \<rparr>)] \<rparr>"

text \<open>
  The table of \<open>calculatePValue\<close> as a function of a finite \<open>|t|\<close>, for positive
  degrees of freedom.
\<close>

definition table_p :: "real \<Rightarrow> real" where
  "table_p t = (if t < 1 then 5 / 10 else if t < 2 then 1 / 10 else if t < 3 then 1 / 100
                else if t < 4 then 1 / 1000 else 1 / 10000)"

section \<open>Metric Extractor\<close>

text \<open>
  A value of an iteration record. An object is the list of its entries in insertion
  order, as \<open>Object.entries\<close> enumerates them.
\<close>

datatype jsval =
  JNum jsnum
| JStr string
| JBool bool
| JNull
| JUndefined
| JArr "jsval list"
| JObj "(string \<times> jsval) list"

text \<open>\<open>prefix ? `${prefix}.${key}` : key\<close>: the empty string is falsy.\<close>

definition fullKey :: "string \<Rightarrow> string \<Rightarrow> string" where
  "fullKey prefix key = (if prefix \<noteq> [] then prefix @ ''.'' @ key else key)"

text \<open>
  The target object maps a metric path to its array of samples. \<open>samples\<close> reads a path,
  \<open>[]\<close> when it is absent; \<open>push_sample\<close> is
  \<open>if (!metrics[k]) metrics[k] = []; metrics[k].push(v)\<close>.
\<close>

definition samples :: "(string \<rightharpoonup> jsnum list) \<Rightarrow> string \<Rightarrow> jsnum list" where
  "samples metrics k = (case metrics k of None \<Rightarrow> [] | Some xs \<Rightarrow> xs)"

definition push_sample ::
  "string \<Rightarrow> jsnum \<Rightarrow> (string \<rightharpoonup> jsnum list) \<Rightarrow> (string \<rightharpoonup> jsnum list)" where
  "push_sample k v metrics = metrics(k \<mapsto> samples metrics k @ [v])"

text \<open>
  \<open>flattenObject(obj, metrics, prefix)\<close>, the same function in the test runner and in the
  comparison engine: a leaf is pushed when \<open>typeof value === 'number' && !isNaN(value)\<close>,
  a nested object that is neither \<open>null\<close> nor an array is descended into, anything else
  is skipped. The mutated \<open>metrics\<close> object is returned.
\<close>

fun flattenObject ::
  "(string \<times> jsval) list \<Rightarrow> (string \<rightharpoonup> jsnum list) \<Rightarrow> string \<Rightarrow> (string \<rightharpoonup> jsnum list)" where
  "flattenObject [] metrics prefix = metrics"
| "flattenObject ((key, value) # rest) metrics prefix =
     flattenObject rest
       (case value of
          JNum n \<Rightarrow> (if n \<noteq> NaN then push_sample (fullKey prefix key) n metrics else metrics)
        | JObj entries \<Rightarrow> flattenObject entries metrics (fullKey prefix key)
        | _ \<Rightarrow> metrics)
       prefix"

text \<open>
  The leaves an iteration record contributes, in traversal order: every leaf that is a
  number other than \<open>NaN\<close>, paired with its dot-joined path. \<open>values_at\<close> selects the
  values of one path.
\<close>

fun leaves :: "string \<Rightarrow> (string \<times> jsval) list \<Rightarrow> (string \<times> jsnum) list" where
  "leaves prefix [] = []"
| "leaves prefix ((key, value) # rest) =
     (case value of
        JNum n \<Rightarrow> (if n \<noteq> NaN then [(fullKey prefix key, n)] else [])
      | JObj entries \<Rightarrow> leaves (fullKey prefix key) entries
      | _ \<Rightarrow> [])
     @ leaves prefix rest"

definition values_at :: "string \<Rightarrow> (string \<times> jsnum) list \<Rightarrow> jsnum list" where
  "values_at k ls = map snd (filter (\<lambda>e. fst e = k) ls)"

text \<open>
  \<open>extractMetrics\<close>: the loop \<open>iterations.forEach(it => flattenObject(it, metrics, ''))\<close>,
  here from any starting object, and then the filter that keeps the arrays whose elements
  are all numbers other than \<open>NaN\<close>.
\<close>

definition collect ::
  "(string \<times> jsval) list list \<Rightarrow> (string \<rightharpoonup> jsnum list) \<Rightarrow> (string \<rightharpoonup> jsnum list)" where
  "collect iterations metrics =
     fold (\<lambda>iteration m. flattenObject iteration m []) iterations metrics"

definition extractMetrics :: "(string \<times> jsval) list list \<Rightarrow> (string \<rightharpoonup> jsnum list)" where
  "extractMetrics iterations =
     (let metrics = collect iterations Map.empty
      in (\<lambda>key. case metrics key of
                   Some values \<Rightarrow> if list_all (\<lambda>v. v \<noteq> NaN) values then Some values else None
                 | None \<Rightarrow> None))"

section \<open>Run Validator\<close>

text \<open>
  An issue or warning entry. The \<open>message\<close>, a text rendered from the other fields, is
  left out. Every sub-report has \<open>passed\<close>, \<open>issues\<close> and \<open>warnings\<close>; the statistics
  sub-report also counts the metrics it saw.
\<close>

record issue =
  iss_type :: string
  iss_severity :: string
  iss_environment :: "string option"
  iss_scenario :: "string option"
  iss_metric :: "string option"
  iss_value :: "jsnum option"
  iss_threshold :: "jsnum option"

record section_report =
  passed :: bool
  issues :: "issue list"
  warnings :: "issue list"

record statistics_report = section_report +
  totalMetrics :: nat
  reliableMetrics :: nat
  unstableMetrics :: nat

text \<open>The thresholds the constructor of \<open>ValidationSystem\<close> sets.\<close>

definition coefficientOfVariation :: jsnum where
  "coefficientOfVariation = Fin 10"

definition successRateThreshold :: jsnum where
  "successRateThreshold = Fin 95"

text \<open>
  \<open>validateStatistics\<close>, one definition per loop body. \<open>checkMetric\<close> is the body of the
  loop over the entries of a \<open>statistics\<close> object: an entry that is a statistics record
  is checked for its coefficient of variation and its sample size.
\<close>

definition checkMetric ::
  "string \<Rightarrow> string \<Rightarrow> string \<times> stat_value \<Rightarrow> statistics_report \<Rightarrow> statistics_report" where
  "checkMetric envName scenarioName e s =
     (case e of
        (metricName, Metric st) \<Rightarrow>
          (let s1 = s\<lparr>totalMetrics := totalMetrics s + 1\<rparr>;
               s2 =
                 (if js_gt (cv st) (js_mul coefficientOfVariation (Fin 2)) then
                    s1\<lparr>issues := issues s1 @
                          [\<lparr>iss_type = ''high_variability'', iss_severity = ''error'',
                            iss_environment = Some envName, iss_scenario = Some scenarioName,
                            iss_metric = Some metricName, iss_value = Some (cv st),
                            iss_threshold = Some (js_mul coefficientOfVariation (Fin 2))\<rparr>],
                        unstableMetrics := unstableMetrics s1 + 1,
                        passed := False\<rparr>
                  else if js_gt (cv st) coefficientOfVariation then
                    s1\<lparr>warnings := warnings s1 @
                          [\<lparr>iss_type = ''moderate_variability'', iss_severity = ''warning'',
                            iss_environment = Some envName, iss_scenario = Some scenarioName,
                            iss_metric = Some metricName, iss_value = Some (cv st),
                            iss_threshold = Some coefficientOfVariation\<rparr>]\<rparr>
                  else s1\<lparr>reliableMetrics := reliableMetrics s1 + 1\<rparr>)
           in if count st < 5 then
                s2\<lparr>warnings := warnings s2 @
                      [\<lparr>iss_type = ''small_sample_size'', iss_severity = ''warning'',
                        iss_environment = Some envName, iss_scenario = Some scenarioName,
                        iss_metric = Some metricName,
                        iss_value = Some (Fin (real (count st))), iss_threshold = None\<rparr>]\<rparr>
              else s2)
      | _ \<Rightarrow> s)"

text \<open>
  The success-rate check that follows the loop over the metrics. \<open>successRate\<close> is a plain
  number when the runner reports it; any other entry is skipped.
\<close>

definition checkSuccessRate ::
  "string \<Rightarrow> string \<Rightarrow> statistics_object \<Rightarrow> statistics_report \<Rightarrow> statistics_report" where
  "checkSuccessRate envName scenarioName stat s =
     (case map_of stat ''successRate'' of
        Some (Scalar successRate) \<Rightarrow>
          if js_lt successRate successRateThreshold then
            (let s1 = s\<lparr>issues := issues s @
                       [\<lparr>iss_type = ''low_success_rate'',
                         iss_severity = (if js_lt successRate (Fin 80) then ''error'' else ''warning''),
                         iss_environment = Some envName, iss_scenario = Some scenarioName,
                         iss_metric = None, iss_value = Some successRate,
                         iss_threshold = Some successRateThreshold\<rparr>]\<rparr>
             in if js_lt successRate (Fin 80) then s1\<lparr>passed := False\<rparr> else s1)
          else s
      | _ \<Rightarrow> s)"

definition checkScenario ::
  "string \<Rightarrow> string \<times> scenario_result \<Rightarrow> statistics_report \<Rightarrow> statistics_report" where
  "checkScenario envName e s =
     (case e of (scenarioName, scenario) \<Rightarrow>
        (case scn_statistics scenario of
           Some stat \<Rightarrow>
             checkSuccessRate envName scenarioName stat
               (fold (checkMetric envName scenarioName) stat s)
         | None \<Rightarrow> s))"

definition checkEnvironment ::
  "string \<times> run_result \<Rightarrow> statistics_report \<Rightarrow> statistics_report" where
  "checkEnvironment e s =
     (case e of (envName, envResult) \<Rightarrow>
        (case scenarios envResult of
           Some scs \<Rightarrow> fold (checkScenario envName) scs s
         | None \<Rightarrow> s))"

record test_results =
  results :: "(string \<times> run_result) list option"

definition validateStatistics :: "test_results \<Rightarrow> statistics_report" where
  "validateStatistics r =
     (let statistics = \<lparr>passed = True, issues = [], warnings = [],
                         totalMetrics = 0, reliableMetrics = 0, unstableMetrics = 0\<rparr>
      in case results r of
           None \<Rightarrow> statistics
         | Some envs \<Rightarrow> fold checkEnvironment envs statistics)"

definition reliabilityRate :: "statistics_report \<Rightarrow> jsnum" where
  "reliabilityRate s =
     (if totalMetrics s > 0
      then js_mul (js_div (Fin (real (reliableMetrics s))) (Fin (real (totalMetrics s)))) (Fin 100)
      else Fin 0)"

text \<open>
  \<open>aggregateValidationResults\<close>. \<open>detailed\<close> holds the five sub-reports in the order
  \<open>validateTestRun\<close> assigns them, which is the order \<open>Object.values\<close> enumerates;
  \<open>new_validation\<close> is the object \<open>validateTestRun\<close> starts from. Each sub-report
  always carries its \<open>issues\<close> and \<open>warnings\<close> arrays. The recommendations, which
  do not enter the score or the verdict, are left out.
\<close>

record detailed =
  d_execution :: section_report
  d_statistics :: section_report
  d_dataQuality :: section_report
  d_infrastructure :: section_report
  d_coverage :: section_report

record validation =
  v_passed :: bool
  v_score :: int
  v_issues :: "issue list"
  v_warnings :: "issue list"
  v_detailed :: detailed

definition sections :: "detailed \<Rightarrow> section_report list" where
  "sections d = [d_execution d, d_statistics d, d_dataQuality d, d_infrastructure d, d_coverage d]"

record aggregate_state =
  ag_totalIssues :: nat
  ag_totalWarnings :: nat
  ag_validation :: validation

definition collectSection :: "section_report \<Rightarrow> aggregate_state \<Rightarrow> aggregate_state" where
  "collectSection section a =
     (let v = ag_validation a;
          v1 = v\<lparr>v_issues := v_issues v @ issues section,
                  v_warnings := v_warnings v @ warnings section\<rparr>;
          v2 = (if \<not> passed section then v1\<lparr>v_passed := False\<rparr> else v1)
      in \<lparr>ag_totalIssues = ag_totalIssues a + length (issues section),
          ag_totalWarnings = ag_totalWarnings a + length (warnings section),
          ag_validation = v2\<rparr>)"

definition aggregateValidationResults :: "validation \<Rightarrow> validation" where
  "aggregateValidationResults validation =
     (let a = fold collectSection (sections (v_detailed validation))
                \<lparr>ag_totalIssues = 0, ag_totalWarnings = 0, ag_validation = validation\<rparr>;
          score = 100 - int (ag_totalIssues a) * 10 - int (ag_totalWarnings a) * 5
      in (ag_validation a)\<lparr>v_score := max 0 score\<rparr>)"

definition new_validation :: "detailed \<Rightarrow> validation" where
  "new_validation d =
     \<lparr>v_passed = True, v_score = 100, v_issues = [], v_warnings = [], v_detailed = d\<rparr>"

text \<open>\<open>clamp(x, lo, hi)\<close> as the score formula uses it.\<close>

definition clamp :: "int \<Rightarrow> int \<Rightarrow> int \<Rightarrow> int" where
  "clamp x lo hi = max lo (min hi x)"

text \<open>
  The \<open>low_success_rate\<close> entry for a scenario, and the property that a report holds an
  entry and, when \<open>failing\<close>, has failed.
\<close>

definition low_success_rate_issue :: "string \<Rightarrow> string \<Rightarrow> jsnum \<Rightarrow> string \<Rightarrow> issue" where
  "low_success_rate_issue envName scenarioName successRate severity =
     \<lparr>iss_type = ''low_success_rate'', iss_severity = severity,
      iss_environment = Some envName, iss_scenario = Some scenarioName,
      iss_metric = None, iss_value = Some successRate,
      iss_threshold = Some (Fin 95)\<rparr>"

definition marked :: "bool \<Rightarrow> issue \<Rightarrow> statistics_report \<Rightarrow> bool" where
  "marked failing i s = (i \<in> set (issues s) \<and> (\<not> failing \<or> \<not> passed s))"

text \<open>A result set with one environment and one scenario that reports only its success rate.\<close>

definition rate_run :: "real \<Rightarrow> test_results" where
  "rate_run x =
     \<lparr>results = Some [(''production'',
        \<lparr>infrastructure_of = None,
         scenarios = Some [(''cold-start'',
           \<lparr>scn_statistics = Some [(''successRate'', Scalar (Fin x))]\<rparr>)]\<rparr>)]\<rparr>"

section \<open>Properties of the reducer\<close>

lemma pct_index_less: "0 < len \<Longrightarrow> pct < 100 \<Longrightarrow> pct_index len pct < len"
  unfolding pct_index_def
  by (simp add: less_mult_imp_div_less)

lemma pct_index_mono: "p \<le> q \<Longrightarrow> pct_index len p \<le> pct_index len q"
  unfolding pct_index_def
  by (simp add: div_le_mono)

lemma pct_index_floor: "pct_index len pct = nat \<lfloor>real len * (real pct / 100)\<rfloor>"
proof -
  have "\<lfloor>real len * (real pct / 100)\<rfloor> = \<lfloor>real (len * pct) / real 100\<rfloor>" by simp
  also have "\<dots> = int ((len * pct) div 100)" by (rule floor_divide_of_nat_eq)
  finally show ?thesis by (simp add: pct_index_def)
qed

lemma sorted_pct_le:
  assumes "0 < length xs" "p \<le> q" "q < 100"
  shows "sort xs ! pct_index (length xs) p \<le> sort xs ! pct_index (length xs) q"
proof -
  have "pct_index (length xs) q < length (sort xs)"
    using assms pct_index_less by simp
  then show ?thesis
    using assms(2) by (intro sorted_nth_mono) (simp_all add: pct_index_mono)
qed

text \<open>
  C4. For a non-empty sample sequence the reducer returns a record whose \<open>count\<close> is
  the length of the sequence, whose \<open>min\<close>, \<open>p75\<close>, \<open>p90\<close>, \<open>p95\<close>, \<open>p99\<close> and
  \<open>max\<close> are the elements of the ascending-sorted sequence at the indices \<open>0\<close>,
  \<open>floor(n * q)\<close> and \<open>n - 1\<close>, and these six values are in ascending order.
\<close>

theorem reducer_invariant:
  assumes "seq \<noteq> []"
  shows "\<exists>st lo a b c d hi.
           calculateStatistics seq = Some st
           \<and> count st = length seq
           \<and> minv st = Some lo \<and> p75 st = Some a \<and> p90 st = Some b
           \<and> p95 st = Some c \<and> p99 st = Some d \<and> maxv st = Some hi
           \<and> lo = sort seq ! 0
           \<and> a = sort seq ! nat \<lfloor>real (length seq) * (75 / 100)\<rfloor>
           \<and> b = sort seq ! nat \<lfloor>real (length seq) * (90 / 100)\<rfloor>
           \<and> c = sort seq ! nat \<lfloor>real (length seq) * (95 / 100)\<rfloor>
           \<and> d = sort seq ! nat \<lfloor>real (length seq) * (99 / 100)\<rfloor>
           \<and> hi = sort seq ! (length seq - 1)
           \<and> lo \<le> a \<and> a \<le> b \<and> b \<le> c \<and> c \<le> d \<and> d \<le> hi"
proof -
  let ?n = "length seq" and ?s = "sort seq"
  have n: "0 < ?n" using assms by simp
  have i75: "pct_index ?n 75 < ?n" and i90: "pct_index ?n 90 < ?n"
    and i95: "pct_index ?n 95 < ?n" and i99: "pct_index ?n 99 < ?n"
    using n by (simp_all add: pct_index_less)
  have o1: "?s ! 0 \<le> ?s ! pct_index ?n 75"
    using i75 by (intro sorted_nth_mono) simp_all
  have o2: "?s ! pct_index ?n 75 \<le> ?s ! pct_index ?n 90"
    using n by (intro sorted_pct_le) simp_all
  have o3: "?s ! pct_index ?n 90 \<le> ?s ! pct_index ?n 95"
    using n by (intro sorted_pct_le) simp_all
  have o4: "?s ! pct_index ?n 95 \<le> ?s ! pct_index ?n 99"
    using n by (intro sorted_pct_le) simp_all
  have o5: "?s ! pct_index ?n 99 \<le> ?s ! (?n - 1)"
    using i99 n by (intro sorted_nth_mono) simp_all
  have fl: "\<And>p. nat \<lfloor>real ?n * (real p / 100)\<rfloor> = pct_index ?n p"
    by (simp only: pct_index_floor)
  have f75: "nat \<lfloor>real ?n * (75 / 100)\<rfloor> = pct_index ?n 75" using fl [of 75] by simp
  have f90: "nat \<lfloor>real ?n * (90 / 100)\<rfloor> = pct_index ?n 90" using fl [of 90] by simp
  have f95: "nat \<lfloor>real ?n * (95 / 100)\<rfloor> = pct_index ?n 95" using fl [of 95] by simp
  have f99: "nat \<lfloor>real ?n * (99 / 100)\<rfloor> = pct_index ?n 99" using fl [of 99] by simp
  have ne: "sort seq \<noteq> []"
    using n by (metis length_sort less_numeral_extra(3) list.size(3))
  show ?thesis
    unfolding f75 f90 f95 f99
    using assms ne i75 i90 i95 i99 o1 o2 o3 o4 o5
    by (simp add: calculateStatistics_def js_index_def Let_def)
qed

theorem reducer_invariant_witness:
  "[3, 1, 2 :: real] \<noteq> [] \<and>
   (\<exists>st. calculateStatistics [3, 1, 2] = Some st \<and> count st = 3
      \<and> minv st = Some 1 \<and> p75 st = Some 3 \<and> p90 st = Some 3 \<and> p95 st = Some 3
      \<and> p99 st = Some 3 \<and> maxv st = Some 3)"
  using reducer_invariant [of "[3, 1, 2]"]
  by (auto simp add: pct_index_def)

text \<open>
  C10. For a non-empty list of numbers every percentile index \<open>floor(n * q)\<close>,
  \<open>q\<close> in \<open>{0.75, 0.90, 0.95, 0.99}\<close>, is below \<open>n\<close> although the code does not clamp
  it, so the reducer returns a record and none of the fields read from the sorted array
  (\<open>min\<close>, \<open>max\<close>, \<open>median\<close>, the four percentiles) is undefined.
\<close>

theorem reducer_total:
  assumes "values \<noteq> []"
  shows "pct_index (length values) 75 < length values
       \<and> pct_index (length values) 90 < length values
       \<and> pct_index (length values) 95 < length values
       \<and> pct_index (length values) 99 < length values
       \<and> (\<exists>st. calculateStatistics values = Some st
             \<and> minv st \<noteq> None \<and> maxv st \<noteq> None \<and> median st \<noteq> None
             \<and> p75 st \<noteq> None \<and> p90 st \<noteq> None \<and> p95 st \<noteq> None \<and> p99 st \<noteq> None)"
proof -
  let ?n = "length values"
  have n: "0 < ?n" using assms by simp
  have idx: "pct_index ?n 75 < ?n" "pct_index ?n 90 < ?n"
    "pct_index ?n 95 < ?n" "pct_index ?n 99 < ?n"
    using n by (simp_all add: pct_index_less)
  have half: "?n div 2 < ?n" using n by simp
  have half1: "?n div 2 - 1 < ?n" using n by arith
  have ne: "sort values \<noteq> []"
    using n by (metis length_sort less_numeral_extra(3) list.size(3))
  define st where "st = the (calculateStatistics values)"
  have some: "calculateStatistics values = Some st"
    using assms by (simp add: st_def calculateStatistics_def Let_def)
  have "minv st \<noteq> None" "maxv st \<noteq> None" "p75 st \<noteq> None" "p90 st \<noteq> None"
    "p95 st \<noteq> None" "p99 st \<noteq> None"
    using assms ne idx by (simp_all add: st_def calculateStatistics_def js_index_def Let_def)
  moreover have "median st \<noteq> None"
    using assms half half1
    by (simp add: st_def calculateStatistics_def js_index_def Let_def del: not_None_eq)
  ultimately show ?thesis using idx some by blast
qed

theorem reducer_total_witness:
  "[4, 2 :: real] \<noteq> [] \<and> pct_index (length [4, 2 :: real]) 99 < length [4, 2 :: real]
   \<and> (\<exists>st. calculateStatistics [4, 2] = Some st \<and> median st = Some 3 \<and> p99 st = Some 4)"
  using reducer_total [of "[4, 2]"]
  by (auto simp add: pct_index_def calculateStatistics_def js_index_def Let_def)

section \<open>Properties of the comparator\<close>

lemma toFixed4_table_p: "toFixed 4 (table_p t) = table_p t"
  by (simp add: table_p_def toFixed_def)

lemma calculatePValue_fin:
  "0 < d \<Longrightarrow> calculatePValue (Fin t) (Fin d) = Fin (table_p t)"
  by (simp add: calculatePValue_def table_p_def)

lemma sq_div_pos: "s \<noteq> 0 \<Longrightarrow> 0 < n \<Longrightarrow> 0 < s * s / (n::real)"
  by (cases "0 < s") (simp_all add: zero_less_mult_iff not_less less_le)

lemma sq_div_nonneg: "0 < n \<Longrightarrow> 0 \<le> s * s / (n::real)"
  by simp

lemma welch_regular:
  fixes b :: "'a stats_scheme" and c :: "'b stats_scheme"
  assumes mb: "mean b = Fin m1" and mc: "mean c = Fin m2"
    and sb: "stddev b = Fin s1" and sc: "stddev c = Fin s2"
    and nb: "2 \<le> count b" and nc: "2 \<le> count c"
    and pos: "s1 \<noteq> 0 \<or> s2 \<noteq> 0"
  shows "pValue (welchTTest b c) =
           Fin (table_p (\<bar>m1 - m2\<bar>
                  / sqrt (s1 * s1 / real (count b) + s2 * s2 / real (count c))))"
proof -
  let ?n1 = "real (count b)" and ?n2 = "real (count c)"
  let ?se = "s1 * s1 / ?n1 + s2 * s2 / ?n2"
  have n1: "0 < ?n1" "?n1 - 1 > 0" and n2: "0 < ?n2" "?n2 - 1 > 0" using nb nc by simp_all
  have a: "0 \<le> s1 * s1 / ?n1" and b: "0 \<le> s2 * s2 / ?n2" using n1 n2 by simp_all
  have se: "0 < ?se"
  proof -
    from pos have "0 < s1 * s1 / ?n1 \<or> 0 < s2 * s2 / ?n2"
      using n1(1) n2(1) sq_div_pos by blast
    then show ?thesis using a b by linarith
  qed
  let ?q1 = "(s1 * s1 / ?n1) * (s1 * s1 / ?n1) / (?n1 - 1)"
  let ?q2 = "(s2 * s2 / ?n2) * (s2 * s2 / ?n2) / (?n2 - 1)"
  let ?den = "?q1 + ?q2"
  have den: "0 < ?den"
  proof -
    have "s1 \<noteq> 0 \<Longrightarrow> 0 < ?q1"
      using sq_div_pos [of s1 ?n1] n1 by (intro sq_div_pos) simp_all
    moreover have "s2 \<noteq> 0 \<Longrightarrow> 0 < ?q2"
      using sq_div_pos [of s2 ?n2] n2 by (intro sq_div_pos) simp_all
    ultimately have "0 < ?q1 \<or> 0 < ?q2"
      using pos by blast
    moreover have "0 \<le> ?q1"
      using n1 by (intro sq_div_nonneg) simp
    moreover have "0 \<le> ?q2"
      using n2 by (intro sq_div_nonneg) simp
    ultimately show ?thesis by linarith
  qed
  have df: "0 < ?se * ?se / ?den" using se den by simp
  have sq: "0 < sqrt ?se" using se by simp
  have n1ne: "?n1 \<noteq> 0" "?n1 - 1 \<noteq> 0" and n2ne: "?n2 \<noteq> 0" "?n2 - 1 \<noteq> 0"
    using n1 n2 by simp_all
  let ?v1 = "js_div (js_mul (Fin s1) (Fin s1)) (Fin ?n1)"
  let ?v2 = "js_div (js_mul (Fin s2) (Fin s2)) (Fin ?n2)"
  have t: "js_div (js_sub (Fin m1) (Fin m2)) (js_sqrt (js_add ?v1 ?v2))
      = Fin ((m1 - m2) / sqrt ?se)"
    using n1ne n2ne se sq by (simp add: js_sub_def not_less [symmetric] del: of_nat_eq_0_iff)
  have d: "js_div (js_pow2 (js_add ?v1 ?v2))
             (js_add (js_div (js_pow2 ?v1) (js_sub (Fin ?n1) (Fin 1)))
                     (js_div (js_pow2 ?v2) (js_sub (Fin ?n2) (Fin 1))))
     = Fin (?se * ?se / ?den)"
    using n1ne n2ne den by (simp add: js_sub_def js_pow2_def del: of_nat_eq_0_iff)
  show ?thesis
    unfolding welchTTest_def Let_def mb mc sb sc t d
    using df sq by (simp add: calculatePValue_fin toFixed4_table_p abs_divide del: of_nat_eq_0_iff)
qed

lemma table_p_ge4: "4 \<le> t \<Longrightarrow> table_p t = 1 / 10000"
  by (simp add: table_p_def)

lemma significant_iff_table: "js_lt (Fin (table_p t)) significanceThreshold \<longleftrightarrow> 2 \<le> t"
  by (simp add: table_p_def significanceThreshold_def)

lemma isSignificant_eq:
  "isSignificant (significance (performStatisticalTest b c))
     = js_lt (pValue (welchTTest b c)) significanceThreshold"
  by (simp add: performStatisticalTest_def Let_def)

lemma percent_eq:
  "percent (change (performStatisticalTest b c))
     = js_toFixed 2 (if js_gt (mean b) (Fin 0)
                     then js_mul (js_div (js_sub (mean c) (mean b)) (mean b)) (Fin 100)
                     else Fin 0)"
  by (simp add: performStatisticalTest_def Let_def)

lemma summary_eq:
  "summary (interpretation_of (performStatisticalTest b c))
     = (let p = percent (change (performStatisticalTest b c)) in
        if isSignificant (significance (performStatisticalTest b c)) then
          (if js_gt p (Fin 5) then SignificantRegression p
           else if js_lt p (Fin (- 5)) then SignificantImprovement (js_abs p)
           else SignificantWithinRange p)
        else NoSignificantChange p)"
  by (simp add: performStatisticalTest_def interpretStatisticalResult_def Let_def
      regressionThreshold_def)

lemma single_metric_summary:
  "compareEnvironments (single_metric_run sn m b) (single_metric_run sn m c)
     = Inr (generateSummary \<lparr> an_infrastructure = None,
         an_scenarios = Some [(sn, [(m, performStatisticalTest b c)])] \<rparr>)"
  by (simp add: compareEnvironments_def analyse_def single_metric_run_def compareScenarios_def
      compareScenario_def compareStatistics_def metricKeys_def Let_def)

lemma tstat_431: "4 \<le> \<bar>369 - 1959\<bar> / sqrt (30 * 30 / real 10 + 403 * 403 / real 10)"
proof -
  have "sqrt (30 * 30 / real 10 + 403 * 403 / real 10) \<le> 200"
    by (rule real_le_lsqrt) simp_all
  moreover have "0 < sqrt (30 * 30 / real 10 + 403 * 403 / real 10)" by simp
  ultimately show ?thesis by (simp add: pos_le_divide_eq)
qed

text \<open>
  C5. For baseline \<open>{mean: 369, stddev: 30, count: 10}\<close> and comparison
  \<open>{mean: 1959, stddev: 403, count: 10}\<close> the comparator reports the percent change
  \<open>430.89\<close>, \<open>isSignificant = true\<close> and the summary of a significant regression, and
  the run summary of a run holding this metric lists it in its regressions (and in its
  significant changes, with a negative overall impact).
\<close>

theorem end_to_end_431:
  "percent (change (performStatisticalTest
       \<lparr>count = 10, mean = Fin 369, stddev = Fin 30, cv = cv1\<rparr>
       \<lparr>count = 10, mean = Fin 1959, stddev = Fin 403, cv = cv2\<rparr>))
     = Fin (43089 / 100)
   \<and> isSignificant (significance (performStatisticalTest
       \<lparr>count = 10, mean = Fin 369, stddev = Fin 30, cv = cv1\<rparr>
       \<lparr>count = 10, mean = Fin 1959, stddev = Fin 403, cv = cv2\<rparr>))
   \<and> summary (interpretation_of (performStatisticalTest
       \<lparr>count = 10, mean = Fin 369, stddev = Fin 30, cv = cv1\<rparr>
       \<lparr>count = 10, mean = Fin 1959, stddev = Fin 403, cv = cv2\<rparr>))
     = SignificantRegression (Fin (43089 / 100))
   \<and> compareEnvironments
       (single_metric_run sn ''timing.total''
          \<lparr>count = 10, mean = Fin 369, stddev = Fin 30, cv = cv1\<rparr>)
       (single_metric_run sn ''timing.total''
          \<lparr>count = 10, mean = Fin 1959, stddev = Fin 403, cv = cv2\<rparr>)
     = Inr \<lparr>overallImpact = ''negative'',
            significantChanges = [MetricChange sn ''timing.total'' (Fin (43089 / 100))],
            regressions = [MetricPlus sn ''timing.total'' (Fin (43089 / 100))],
            improvements = [],
            stability = ''stable''\<rparr>"
proof -
  let ?b = "\<lparr>count = 10, mean = Fin 369, stddev = Fin 30, cv = cv1\<rparr>"
  let ?c = "\<lparr>count = 10, mean = Fin 1959, stddev = Fin 403, cv = cv2\<rparr>"
  have pv: "pValue (welchTTest ?b ?c) = Fin (1 / 10000)"
    using welch_regular [of ?b 369 ?c 1959 30 403] tstat_431
    by (simp add: table_p_ge4)
  have sig: "isSignificant (significance (performStatisticalTest ?b ?c))"
    by (simp add: isSignificant_eq pv significanceThreshold_def)
  have pct: "percent (change (performStatisticalTest ?b ?c)) = Fin (43089 / 100)"
    by (simp add: percent_eq js_gt_def js_sub_def toFixed_def)
  have summ: "summary (interpretation_of (performStatisticalTest ?b ?c))
           = SignificantRegression (Fin (43089 / 100))"
    by (simp add: summary_eq sig pct js_gt_def)
  have reg: "compareEnvironments (single_metric_run sn ''timing.total'' ?b)
                         (single_metric_run sn ''timing.total'' ?c)
           = Inr \<lparr>overallImpact = ''negative'',
                  significantChanges = [MetricChange sn ''timing.total'' (Fin (43089 / 100))],
                  regressions = [MetricPlus sn ''timing.total'' (Fin (43089 / 100))],
                  improvements = [],
                  stability = ''stable''\<rparr>"
    by (simp add: single_metric_summary generateSummary_def scenarioStep_def metricStep_def
        sig pct js_gt_def Let_def)
  show ?thesis using pct sig summ reg by blast
qed

text \<open>
  C2 (what the code does). Two records with zero variance and count 5, and a record with
  count 1 and zero variance against a regular one: the degrees of freedom are \<open>NaN\<close>,
  which the guard \<open>df <= 0\<close> lets through, the p-value is \<open>0.0001\<close> and the comparison
  is reported significant.
\<close>

theorem degenerate_pairs_reported_significant:
  "welchTTest \<lparr>count = 5, mean = Fin 100, stddev = Fin 0, cv = Fin 0\<rparr>
              \<lparr>count = 5, mean = Fin 100, stddev = Fin 0, cv = Fin 0\<rparr>
     = \<lparr>tStatistic = NaN, degreesOfFreedom = NaN, pValue = Fin (1 / 10000)\<rparr>
   \<and> isSignificant (significance (performStatisticalTest
         \<lparr>count = 5, mean = Fin 100, stddev = Fin 0, cv = Fin 0\<rparr>
         \<lparr>count = 5, mean = Fin 100, stddev = Fin 0, cv = Fin 0\<rparr>))
   \<and> welchTTest \<lparr>count = 1, mean = Fin 100, stddev = Fin 0, cv = Fin 0\<rparr>
                \<lparr>count = 4, mean = Fin 200, stddev = Fin 4, cv = Fin 2\<rparr>
     = \<lparr>tStatistic = Fin (- 50), degreesOfFreedom = NaN, pValue = Fin (1 / 10000)\<rparr>
   \<and> isSignificant (significance (performStatisticalTest
         \<lparr>count = 1, mean = Fin 100, stddev = Fin 0, cv = Fin 0\<rparr>
         \<lparr>count = 4, mean = Fin 200, stddev = Fin 4, cv = Fin 2\<rparr>))"
  by (simp add: isSignificant_eq welchTTest_def Let_def js_sub_def js_pow2_def
      calculatePValue_def toFixed_def significanceThreshold_def)

text \<open>
  C3 (what the code does). A run whose only metric has standard deviation 0, compared
  with itself: the metric is listed in \<open>significantChanges\<close> with a change of 0 percent,
  while \<open>regressions\<close> and \<open>improvements\<close> are empty and the impact is neutral.
\<close>

theorem identical_runs_significant_change:
  "compareEnvironments
     (single_metric_run ''cold-start'' ''attempt''
       \<lparr>count = 5, mean = Fin 1, stddev = Fin 0, cv = Fin 0\<rparr>)
     (single_metric_run ''cold-start'' ''attempt''
       \<lparr>count = 5, mean = Fin 1, stddev = Fin 0, cv = Fin 0\<rparr>)
   = Inr \<lparr>overallImpact = ''neutral'',
          significantChanges = [MetricChange ''cold-start'' ''attempt'' (Fin 0)],
          regressions = [],
          improvements = [],
          stability = ''stable''\<rparr>"
  by (simp add: single_metric_summary generateSummary_def scenarioStep_def metricStep_def
      isSignificant_eq percent_eq welchTTest_def Let_def js_sub_def js_pow2_def js_gt_def
      calculatePValue_def toFixed_def significanceThreshold_def)

lemma table_p_antimono: "t \<le> u \<Longrightarrow> table_p u \<le> table_p t"
  by (simp add: table_p_def)

text \<open>
  C6. For two statistics records with nonzero standard deviations and counts of at
  least 2, replacing the means by means that are at least as far apart, with standard
  deviations and counts unchanged, does not increase the p-value and keeps a
  significant comparison significant.
\<close>

theorem significance_monotone:
  assumes var: "s1 \<noteq> 0" "s2 \<noteq> 0"
    and cnt: "2 \<le> n1" "2 \<le> n2"
    and diff: "\<bar>m1 - m2\<bar> \<le> \<bar>m1' - m2'\<bar>"
  shows "js_le (pValue (welchTTest \<lparr>count = n1, mean = Fin m1', stddev = Fin s1, cv = c1'\<rparr>
                                   \<lparr>count = n2, mean = Fin m2', stddev = Fin s2, cv = c2'\<rparr>))
               (pValue (welchTTest \<lparr>count = n1, mean = Fin m1, stddev = Fin s1, cv = c1\<rparr>
                                   \<lparr>count = n2, mean = Fin m2, stddev = Fin s2, cv = c2\<rparr>))
       \<and> (isSignificant (significance (performStatisticalTest
              \<lparr>count = n1, mean = Fin m1, stddev = Fin s1, cv = c1\<rparr>
              \<lparr>count = n2, mean = Fin m2, stddev = Fin s2, cv = c2\<rparr>))
            \<longrightarrow> isSignificant (significance (performStatisticalTest
              \<lparr>count = n1, mean = Fin m1', stddev = Fin s1, cv = c1'\<rparr>
              \<lparr>count = n2, mean = Fin m2', stddev = Fin s2, cv = c2'\<rparr>)))"
proof -
  let ?b = "\<lparr>count = n1, mean = Fin m1, stddev = Fin s1, cv = c1\<rparr>"
  let ?c = "\<lparr>count = n2, mean = Fin m2, stddev = Fin s2, cv = c2\<rparr>"
  let ?b' = "\<lparr>count = n1, mean = Fin m1', stddev = Fin s1, cv = c1'\<rparr>"
  let ?c' = "\<lparr>count = n2, mean = Fin m2', stddev = Fin s2, cv = c2'\<rparr>"
  let ?se = "sqrt (s1 * s1 / real n1 + s2 * s2 / real n2)"
  let ?t = "\<bar>m1 - m2\<bar> / ?se" and ?t' = "\<bar>m1' - m2'\<bar> / ?se"
  have p: "pValue (welchTTest ?b ?c) = Fin (table_p ?t)"
    using welch_regular [of ?b m1 ?c m2 s1 s2] var cnt by simp
  have p': "pValue (welchTTest ?b' ?c') = Fin (table_p ?t')"
    using welch_regular [of ?b' m1' ?c' m2' s1 s2] var cnt by simp
  have "0 \<le> ?se" by simp
  then have tt: "?t \<le> ?t'" using diff by (rule divide_right_mono [rotated])
  have le: "table_p ?t' \<le> table_p ?t" using tt by (rule table_p_antimono)
  have one: "js_le (pValue (welchTTest ?b' ?c')) (pValue (welchTTest ?b ?c))"
    unfolding p p' using le by (simp add: less_le)
  have two: "isSignificant (significance (performStatisticalTest ?b ?c))
     \<longrightarrow> isSignificant (significance (performStatisticalTest ?b' ?c'))"
    unfolding isSignificant_eq p p' significant_iff_table using tt by simp
  show ?thesis using one two by blast
qed

theorem significance_monotone_witness:
  "(2::real) \<noteq> 0 \<and> (2::nat) \<le> 2 \<and> \<bar>0 - 10\<bar> \<le> \<bar>0 - (20::real)\<bar>
   \<and> isSignificant (significance (performStatisticalTest
              \<lparr>count = 2, mean = Fin 0, stddev = Fin 2, cv = Fin 0\<rparr>
              \<lparr>count = 2, mean = Fin 10, stddev = Fin 2, cv = Fin 20\<rparr>))
   \<and> isSignificant (significance (performStatisticalTest
              \<lparr>count = 2, mean = Fin 0, stddev = Fin 2, cv = Fin 0\<rparr>
              \<lparr>count = 2, mean = Fin 20, stddev = Fin 2, cv = Fin 10\<rparr>))"
proof -
  have h1: "(2::real) \<noteq> 0" and h2: "(2::nat) \<le> 2" and h3: "\<bar>0 - 10\<bar> \<le> \<bar>0 - (20::real)\<bar>"
    by simp_all
  have pre: "isSignificant (significance (performStatisticalTest
              \<lparr>count = 2, mean = Fin 0, stddev = Fin 2, cv = Fin 0\<rparr>
              \<lparr>count = 2, mean = Fin 10, stddev = Fin 2, cv = Fin 20\<rparr>))"
    by (simp add: isSignificant_eq welchTTest_def Let_def js_sub_def js_pow2_def
        calculatePValue_def toFixed_def significanceThreshold_def)
  note m = significance_monotone [OF h1 h1 h2 h2 h3, of "Fin 0" "Fin 10" "Fin 0" "Fin 20"]
  from m pre have post: "isSignificant (significance (performStatisticalTest
              \<lparr>count = 2, mean = Fin 0, stddev = Fin 2, cv = Fin 0\<rparr>
              \<lparr>count = 2, mean = Fin 20, stddev = Fin 2, cv = Fin 10\<rparr>))"
    by blast
  show ?thesis using h1 h2 h3 pre post by blast
qed

section \<open>Properties of the run summary\<close>

lemma metricStep_regressions:
  "set (regressions (metricStep sn e s)) = set (regressions s) \<union>
     {MetricPlus sn m (percent (change r)) | m r. e = (m, r) \<and> isSignificant (significance r)
        \<and> js_gt (js_abs (percent (change r))) (Fin 5) \<and> js_gt (percent (change r)) (Fin 0)}"
  by (cases e) (auto simp add: metricStep_def Let_def)

lemma metricStep_improvements:
  "set (improvements (metricStep sn e s)) = set (improvements s) \<union>
     {MetricChange sn m (percent (change r)) | m r. e = (m, r) \<and> isSignificant (significance r)
        \<and> js_gt (js_abs (percent (change r))) (Fin 5) \<and> \<not> js_gt (percent (change r)) (Fin 0)}"
  by (cases e) (auto simp add: metricStep_def Let_def)

lemma fold_metricStep_regressions:
  "set (regressions (fold (metricStep sn) stat s)) = set (regressions s) \<union>
     {MetricPlus sn m (percent (change r)) | m r. (m, r) \<in> set stat \<and> isSignificant (significance r)
        \<and> js_gt (js_abs (percent (change r))) (Fin 5) \<and> js_gt (percent (change r)) (Fin 0)}"
proof (induction stat arbitrary: s)
  case Nil
  then show ?case by simp
next
  case (Cons e stat)
  show ?case
    unfolding fold_simps Cons.IH metricStep_regressions by auto
qed

lemma fold_metricStep_improvements:
  "set (improvements (fold (metricStep sn) stat s)) = set (improvements s) \<union>
     {MetricChange sn m (percent (change r)) | m r. (m, r) \<in> set stat \<and> isSignificant (significance r)
        \<and> js_gt (js_abs (percent (change r))) (Fin 5) \<and> \<not> js_gt (percent (change r)) (Fin 0)}"
proof (induction stat arbitrary: s)
  case Nil
  then show ?case by simp
next
  case (Cons e stat)
  show ?case
    unfolding fold_simps Cons.IH metricStep_improvements by auto
qed

lemma fold_scenarioStep_regressions:
  "set (regressions (fold scenarioStep scs s)) = set (regressions s) \<union>
     {MetricPlus sn m (percent (change r)) | sn stat m r. (sn, stat) \<in> set scs \<and> (m, r) \<in> set stat
        \<and> isSignificant (significance r)
        \<and> js_gt (js_abs (percent (change r))) (Fin 5) \<and> js_gt (percent (change r)) (Fin 0)}"
proof (induction scs arbitrary: s)
  case Nil
  then show ?case by simp
next
  case (Cons e scs)
  obtain sn stat where e: "e = (sn, stat)" by (cases e)
  have step: "fold scenarioStep (e # scs) s = fold scenarioStep scs (fold (metricStep sn) stat s)"
    by (simp add: e scenarioStep_def)
  show ?case
    by (subst step, subst Cons.IH, subst fold_metricStep_regressions) (auto simp add: e)
qed

lemma fold_scenarioStep_improvements:
  "set (improvements (fold scenarioStep scs s)) = set (improvements s) \<union>
     {MetricChange sn m (percent (change r)) | sn stat m r. (sn, stat) \<in> set scs \<and> (m, r) \<in> set stat
        \<and> isSignificant (significance r)
        \<and> js_gt (js_abs (percent (change r))) (Fin 5) \<and> \<not> js_gt (percent (change r)) (Fin 0)}"
proof (induction scs arbitrary: s)
  case Nil
  then show ?case by simp
next
  case (Cons e scs)
  obtain sn stat where e: "e = (sn, stat)" by (cases e)
  have step: "fold scenarioStep (e # scs) s = fold scenarioStep scs (fold (metricStep sn) stat s)"
    by (simp add: e scenarioStep_def)
  show ?case
    by (subst step, subst Cons.IH, subst fold_metricStep_improvements) (auto simp add: e)
qed


lemma infraStep_regressions:
  "MetricPlus sn m p \<in> set (regressions (infraStep e s))
     \<longleftrightarrow> MetricPlus sn m p \<in> set (regressions s)"
  by (cases e) (auto simp add: infraStep_def split: option.splits)

lemma infraStep_improvements:
  "MetricChange sn m p \<in> set (improvements (infraStep e s))
     \<longleftrightarrow> MetricChange sn m p \<in> set (improvements s)"
  by (cases e) (auto simp add: infraStep_def split: option.splits)

lemma fold_infraStep_regressions:
  "MetricPlus sn m p \<in> set (regressions (fold infraStep infra s))
     \<longleftrightarrow> MetricPlus sn m p \<in> set (regressions s)"
  by (induction infra arbitrary: s) (simp_all add: infraStep_regressions)

lemma fold_infraStep_improvements:
  "MetricChange sn m p \<in> set (improvements (fold infraStep infra s))
     \<longleftrightarrow> MetricChange sn m p \<in> set (improvements s)"
  by (induction infra arbitrary: s) (simp_all add: infraStep_improvements)

lemma abs_gt5_sign:
  "js_gt (js_abs p) (Fin 5) \<Longrightarrow> (\<not> js_gt p (Fin 0)) = js_lt p (Fin 0)"
  by (cases p) (auto simp add: js_gt_def)

lemma generateSummary_lists:
  "regressions (generateSummary a) = regressions (summary_state a)"
  "improvements (generateSummary a) = improvements (summary_state a)"
  "significantChanges (generateSummary a) = significantChanges (summary_state a)"
  by (simp_all add: generateSummary_def summary_state_def Let_def)

text \<open>
  C1 (amended). A per-metric comparison is listed in the regressions of the run summary
  exactly when it is statistically significant, its percent change exceeds 5 in
  absolute value and the percent change is positive, and in the improvements exactly
  when it is significant, exceeds 5 in absolute value and is negative.
\<close>

theorem significant_changes_listed:
  "(MetricPlus sn m p \<in> set (regressions (generateSummary a)) \<longleftrightarrow>
      (\<exists>scs stat r. an_scenarios a = Some scs \<and> (sn, stat) \<in> set scs \<and> (m, r) \<in> set stat
         \<and> percent (change r) = p \<and> isSignificant (significance r)
         \<and> js_gt (js_abs p) (Fin 5) \<and> js_gt p (Fin 0)))
   \<and> (MetricChange sn m p \<in> set (improvements (generateSummary a)) \<longleftrightarrow>
      (\<exists>scs stat r. an_scenarios a = Some scs \<and> (sn, stat) \<in> set scs \<and> (m, r) \<in> set stat
         \<and> percent (change r) = p \<and> isSignificant (significance r)
         \<and> js_gt (js_abs p) (Fin 5) \<and> js_lt p (Fin 0)))"
proof (intro conjI)
  show "MetricPlus sn m p \<in> set (regressions (generateSummary a)) \<longleftrightarrow>
      (\<exists>scs stat r. an_scenarios a = Some scs \<and> (sn, stat) \<in> set scs \<and> (m, r) \<in> set stat
         \<and> percent (change r) = p \<and> isSignificant (significance r)
         \<and> js_gt (js_abs p) (Fin 5) \<and> js_gt p (Fin 0))"
    unfolding generateSummary_lists summary_state_def Let_def
    by (cases "an_scenarios a"; cases "an_infrastructure a")
       (auto simp add: fold_scenarioStep_regressions fold_infraStep_regressions)
  have "MetricChange sn m p \<in> set (improvements (generateSummary a)) \<longleftrightarrow>
      (\<exists>scs stat r. an_scenarios a = Some scs \<and> (sn, stat) \<in> set scs \<and> (m, r) \<in> set stat
         \<and> percent (change r) = p \<and> isSignificant (significance r)
         \<and> js_gt (js_abs p) (Fin 5) \<and> \<not> js_gt p (Fin 0))"
    unfolding generateSummary_lists summary_state_def Let_def
    by (cases "an_scenarios a"; cases "an_infrastructure a")
       (auto simp add: fold_scenarioStep_improvements fold_infraStep_improvements)
  then show "MetricChange sn m p \<in> set (improvements (generateSummary a)) \<longleftrightarrow>
      (\<exists>scs stat r. an_scenarios a = Some scs \<and> (sn, stat) \<in> set scs \<and> (m, r) \<in> set stat
         \<and> percent (change r) = p \<and> isSignificant (significance r)
         \<and> js_gt (js_abs p) (Fin 5) \<and> js_lt p (Fin 0))"
    using abs_gt5_sign by metis
qed

text \<open>
  C1 (counterexample). Means 10 and 11 with standard deviation 2 and count 2 on both
  sides: the percent change is 10, above 5, the comparison is not significant, and every
  list of the run summary, the regressions among them, stays empty.
\<close>

theorem insignificant_change_not_listed:
  "percent (change (performStatisticalTest
       \<lparr>count = 2, mean = Fin 10, stddev = Fin 2, cv = Fin 20\<rparr>
       \<lparr>count = 2, mean = Fin 11, stddev = Fin 2, cv = Fin 18\<rparr>)) = Fin 10
   \<and> js_gt (js_abs (Fin 10)) (Fin 5)
   \<and> \<not> isSignificant (significance (performStatisticalTest
       \<lparr>count = 2, mean = Fin 10, stddev = Fin 2, cv = Fin 20\<rparr>
       \<lparr>count = 2, mean = Fin 11, stddev = Fin 2, cv = Fin 18\<rparr>))
   \<and> compareEnvironments
        (single_metric_run ''cold-start'' ''timing.total''
           \<lparr>count = 2, mean = Fin 10, stddev = Fin 2, cv = Fin 20\<rparr>)
        (single_metric_run ''cold-start'' ''timing.total''
           \<lparr>count = 2, mean = Fin 11, stddev = Fin 2, cv = Fin 18\<rparr>)
      = Inr \<lparr>overallImpact = ''neutral'', significantChanges = [], regressions = [],
             improvements = [], stability = ''stable''\<rparr>"
  by (simp add: single_metric_summary generateSummary_def scenarioStep_def metricStep_def
      isSignificant_eq percent_eq welchTTest_def Let_def js_sub_def js_pow2_def js_gt_def
      calculatePValue_def toFixed_def significanceThreshold_def)

section \<open>Properties of the metric extractor\<close>

lemma samples_push:
  "samples (push_sample k v m) k' = samples m k' @ (if k' = k then [v] else [])"
  by (simp add: samples_def push_sample_def)

lemma dom_push: "dom (push_sample k v m) = insert k (dom m)"
  by (simp add: push_sample_def)

lemma values_at_append: "values_at k (xs @ ys) = values_at k xs @ values_at k ys"
  by (simp add: values_at_def)

lemma flattenObject_samples:
  "samples (flattenObject obj m p) k = samples m k @ values_at k (leaves p obj)"
proof (induction obj m p rule: flattenObject.induct)
  case (1 metrics prefix)
  then show ?case by (simp add: values_at_def)
next
  case (2 key v rest metrics prefix)
  show ?case
  proof (cases v)
    case (JNum n)
    then show ?thesis
      using "2.IH"(2) by (auto simp add: samples_push values_at_append values_at_def)
  next
    case (JObj entries)
    then show ?thesis
      using "2.IH"(1) [of entries] "2.IH"(2) by (simp add: values_at_append)
  qed (use "2.IH"(2) in \<open>simp_all add: values_at_def\<close>)
qed

lemma flattenObject_dom:
  "dom (flattenObject obj m p) = dom m \<union> fst ` set (leaves p obj)"
proof (induction obj m p rule: flattenObject.induct)
  case (1 metrics prefix)
  then show ?case by simp
next
  case (2 key v rest metrics prefix)
  show ?case
  proof (cases v)
    case (JNum n)
    then show ?thesis
      using "2.IH"(2) by (auto simp add: dom_push)
  next
    case (JObj entries)
    then show ?thesis
      using "2.IH"(1) [of entries] "2.IH"(2) by (auto simp add: image_Un)
  qed (use "2.IH"(2) in \<open>simp_all\<close>)
qed

lemma collect_samples:
  "samples (collect its m) k
     = samples m k @ concat (map (\<lambda>it. values_at k (leaves [] it)) its)"
  unfolding collect_def
  by (induction its arbitrary: m) (simp_all add: flattenObject_samples)

lemma leaves_no_nan: "(k, NaN) \<notin> set (leaves p obj)"
proof (induction p obj rule: leaves.induct)
  case (1 prefix)
  then show ?case by simp
next
  case (2 prefix key v rest)
  then show ?case by (cases v) auto
qed

lemma values_at_no_nan: "NaN \<notin> set (values_at k (leaves p obj))"
  using leaves_no_nan by (auto simp add: values_at_def)

lemma samples_empty: "samples Map.empty k = []"
  by (simp add: samples_def)

lemma collect_empty_samples:
  "samples (collect its Map.empty) k = concat (map (\<lambda>it. values_at k (leaves [] it)) its)"
  by (simp only: collect_samples samples_empty append_Nil)

lemma collect_no_nan: "NaN \<notin> set (samples (collect its Map.empty) k)"
  by (simp add: collect_empty_samples values_at_no_nan)

lemma extractMetrics_samples:
  "samples (extractMetrics its) k = concat (map (\<lambda>it. values_at k (leaves [] it)) its)"
proof -
  have "samples (extractMetrics its) k = samples (collect its Map.empty) k"
    using collect_no_nan [of its k]
    by (auto simp add: extractMetrics_def samples_def Let_def list_all_iff split: option.splits)
  then show ?thesis by (simp only: collect_empty_samples)
qed

text \<open>
  C9 (amended). The extractor appends a leaf to the sample sequence of its dot-joined
  path exactly when the leaf is a number other than \<open>NaN\<close>: the sequence of a path after
  a call is the sequence before it followed by the non-\<open>NaN\<close> numeric leaves of the
  record at that path, in traversal order; a path is present afterwards iff it was
  present or the record has such a leaf there; over many iterations the sequences are
  the per-iteration leaves in iteration order.
\<close>

theorem extractor_appends_non_nan_leaves:
  "samples (flattenObject obj m p) k = samples m k @ values_at k (leaves p obj)
   \<and> dom (flattenObject obj m p) = dom m \<union> fst ` set (leaves p obj)
   \<and> leaves p [(key, JNum n)] = (if n = NaN then [] else [(fullKey p key, n)])
   \<and> samples (collect its m) k
       = samples m k @ concat (map (\<lambda>it. values_at k (leaves [] it)) its)
   \<and> samples (extractMetrics its) k = concat (map (\<lambda>it. values_at k (leaves [] it)) its)"
  using flattenObject_samples flattenObject_dom collect_samples extractMetrics_samples
  by simp

text \<open>
  C9 (counterexample). The record \<open>{size: Infinity}\<close>: the non-finite leaf is appended.
\<close>

theorem infinity_is_appended:
  "flattenObject [(''size'', JNum PInf)] Map.empty [] ''size'' = Some [PInf]"
  by (simp add: push_sample_def samples_def fullKey_def)

section \<open>Properties of the run validator\<close>

lemma fold_collectSection_issues:
  "ag_totalIssues (fold collectSection secs a)
     = ag_totalIssues a + sum_list (map (\<lambda>s. length (issues s)) secs)"
  by (induction secs arbitrary: a) (simp_all add: collectSection_def Let_def)

lemma fold_collectSection_warnings:
  "ag_totalWarnings (fold collectSection secs a)
     = ag_totalWarnings a + sum_list (map (\<lambda>s. length (warnings s)) secs)"
  by (induction secs arbitrary: a) (simp_all add: collectSection_def Let_def)

lemma fold_collectSection_passed:
  "v_passed (ag_validation (fold collectSection secs a))
     = (v_passed (ag_validation a) \<and> list_all passed secs)"
  by (induction secs arbitrary: a) (auto simp add: collectSection_def Let_def)

lemma fold_collectSection_lists:
  "v_issues (ag_validation (fold collectSection secs a))
     = v_issues (ag_validation a) @ concat (map issues secs)"
  "v_warnings (ag_validation (fold collectSection secs a))
     = v_warnings (ag_validation a) @ concat (map warnings secs)"
  by (induction secs arbitrary: a) (simp_all add: collectSection_def Let_def)

lemma aggregate_fields:
  "v_passed (aggregateValidationResults v)
     = v_passed (ag_validation (fold collectSection (sections (v_detailed v))
         \<lparr>ag_totalIssues = 0, ag_totalWarnings = 0, ag_validation = v\<rparr>))"
  "v_issues (aggregateValidationResults v)
     = v_issues (ag_validation (fold collectSection (sections (v_detailed v))
         \<lparr>ag_totalIssues = 0, ag_totalWarnings = 0, ag_validation = v\<rparr>))"
  "v_warnings (aggregateValidationResults v)
     = v_warnings (ag_validation (fold collectSection (sections (v_detailed v))
         \<lparr>ag_totalIssues = 0, ag_totalWarnings = 0, ag_validation = v\<rparr>))"
  by (simp_all add: aggregateValidationResults_def Let_def)

text \<open>
  C7. The top-level score is 100 minus 10 per issue and 5 per warning of the five
  sub-reports, clamped to \<open>[0, 100]\<close>, the top-level \<open>passed\<close> flag is the conjunction of
  the five sub-report flags, and the top-level lists are the sub-report lists in order.
\<close>

theorem aggregate_score_and_passed:
  "v_score (aggregateValidationResults (new_validation d))
     = clamp (100 - 10 * int (length (issues (d_execution d)) + length (issues (d_statistics d))
                + length (issues (d_dataQuality d)) + length (issues (d_infrastructure d))
                + length (issues (d_coverage d)))
              - 5 * int (length (warnings (d_execution d)) + length (warnings (d_statistics d))
                + length (warnings (d_dataQuality d)) + length (warnings (d_infrastructure d))
                + length (warnings (d_coverage d)))) 0 100
   \<and> v_passed (aggregateValidationResults (new_validation d))
     = (passed (d_execution d) \<and> passed (d_statistics d) \<and> passed (d_dataQuality d)
        \<and> passed (d_infrastructure d) \<and> passed (d_coverage d))
   \<and> v_issues (aggregateValidationResults (new_validation d))
     = issues (d_execution d) @ issues (d_statistics d) @ issues (d_dataQuality d)
        @ issues (d_infrastructure d) @ issues (d_coverage d)
   \<and> v_warnings (aggregateValidationResults (new_validation d))
     = warnings (d_execution d) @ warnings (d_statistics d) @ warnings (d_dataQuality d)
        @ warnings (d_infrastructure d) @ warnings (d_coverage d)"
proof -
  let ?a = "fold collectSection (sections (v_detailed (new_validation d)))
              \<lparr>ag_totalIssues = 0, ag_totalWarnings = 0, ag_validation = new_validation d\<rparr>"
  have ti: "ag_totalIssues ?a = length (issues (d_execution d)) + length (issues (d_statistics d))
                + length (issues (d_dataQuality d)) + length (issues (d_infrastructure d))
                + length (issues (d_coverage d))"
    unfolding fold_collectSection_issues by (simp add: sections_def new_validation_def)
  have tw: "ag_totalWarnings ?a = length (warnings (d_execution d)) + length (warnings (d_statistics d))
                + length (warnings (d_dataQuality d)) + length (warnings (d_infrastructure d))
                + length (warnings (d_coverage d))"
    unfolding fold_collectSection_warnings by (simp add: sections_def new_validation_def)
  have sc: "v_score (aggregateValidationResults (new_validation d))
      = max 0 (100 - int (ag_totalIssues ?a) * 10 - int (ag_totalWarnings ?a) * 5)"
    by (simp add: aggregateValidationResults_def Let_def)
  have score: "v_score (aggregateValidationResults (new_validation d))
     = clamp (100 - 10 * int (length (issues (d_execution d)) + length (issues (d_statistics d))
                + length (issues (d_dataQuality d)) + length (issues (d_infrastructure d))
                + length (issues (d_coverage d)))
              - 5 * int (length (warnings (d_execution d)) + length (warnings (d_statistics d))
                + length (warnings (d_dataQuality d)) + length (warnings (d_infrastructure d))
                + length (warnings (d_coverage d)))) 0 100"
    unfolding sc ti tw clamp_def by linarith
  have rest: "v_passed (aggregateValidationResults (new_validation d))
     = (passed (d_execution d) \<and> passed (d_statistics d) \<and> passed (d_dataQuality d)
        \<and> passed (d_infrastructure d) \<and> passed (d_coverage d))"
    "v_issues (aggregateValidationResults (new_validation d))
     = issues (d_execution d) @ issues (d_statistics d) @ issues (d_dataQuality d)
        @ issues (d_infrastructure d) @ issues (d_coverage d)"
    "v_warnings (aggregateValidationResults (new_validation d))
     = warnings (d_execution d) @ warnings (d_statistics d) @ warnings (d_dataQuality d)
        @ warnings (d_infrastructure d) @ warnings (d_coverage d)"
    unfolding aggregate_fields fold_collectSection_passed fold_collectSection_lists
    by (simp_all add: sections_def new_validation_def)
  show ?thesis using score rest by blast
qed

lemma fold_preserves:
  assumes "\<And>y s. Q s \<Longrightarrow> Q (f y s)" and "Q s"
  shows "Q (fold f xs s)"
  using assms(2) by (induction xs arbitrary: s) (simp_all add: assms(1))

lemma fold_establishes:
  assumes "x \<in> set xs" and "\<And>s. Q (f x s)" and "\<And>y s. Q s \<Longrightarrow> Q (f y s)"
  shows "Q (fold f xs s)"
  using assms(1)
proof (induction xs arbitrary: s)
  case Nil
  then show ?case by simp
next
  case (Cons a xs)
  show ?case
  proof (cases "x = a")
    case True
    have "Q (f a s)" using assms(2) True by simp
    then have "Q (fold f xs (f a s))" using assms(3) by (rule fold_preserves [rotated])
    then show ?thesis by simp
  next
    case False
    then have "x \<in> set xs" using Cons.prems by simp
    then show ?thesis using Cons.IH by simp
  qed
qed

lemma checkMetric_marked: "marked f i s \<Longrightarrow> marked f i (checkMetric en sn e s)"
  by (cases e; cases "snd e")
     (auto simp add: marked_def checkMetric_def Let_def split: stat_value.splits)

lemma checkSuccessRate_marked: "marked f i s \<Longrightarrow> marked f i (checkSuccessRate en sn stat s)"
  by (auto simp add: marked_def checkSuccessRate_def Let_def split: option.splits stat_value.splits)

lemma checkScenario_marked: "marked f i s \<Longrightarrow> marked f i (checkScenario en e s)"
  by (cases e)
     (auto simp add: checkScenario_def split: option.splits
        intro!: checkSuccessRate_marked fold_preserves checkMetric_marked)

lemma checkEnvironment_marked: "marked f i s \<Longrightarrow> marked f i (checkEnvironment e s)"
  by (cases e)
     (auto simp add: checkEnvironment_def split: option.splits
        intro!: fold_preserves checkScenario_marked)

lemma checkSuccessRate_low:
  assumes "map_of stat ''successRate'' = Some (Scalar (Fin x))" and "x < 80"
  shows "issues (checkSuccessRate en sn stat s)
           = issues s @ [low_success_rate_issue en sn (Fin x) ''error'']"
    and "\<not> passed (checkSuccessRate en sn stat s)"
    and "warnings (checkSuccessRate en sn stat s) = warnings s"
  using assms
  by (simp_all add: checkSuccessRate_def low_success_rate_issue_def
      successRateThreshold_def Let_def)

lemma checkSuccessRate_mid:
  assumes "map_of stat ''successRate'' = Some (Scalar (Fin x))" and "80 \<le> x" and "x < 95"
  shows "issues (checkSuccessRate en sn stat s)
           = issues s @ [low_success_rate_issue en sn (Fin x) ''warning'']"
    and "passed (checkSuccessRate en sn stat s) = passed s"
    and "warnings (checkSuccessRate en sn stat s) = warnings s"
  using assms
  by (simp_all add: checkSuccessRate_def low_success_rate_issue_def
      successRateThreshold_def Let_def)

lemma checkSuccessRate_high:
  assumes "map_of stat ''successRate'' = Some (Scalar (Fin x))" and "95 \<le> x"
  shows "checkSuccessRate en sn stat s = s"
  using assms by (simp add: checkSuccessRate_def successRateThreshold_def)

lemma validateStatistics_marked:
  assumes r: "results r = Some envs"
    and env: "(envName, envResult) \<in> set envs"
    and scs: "scenarios envResult = Some scs"
    and sc: "(scenarioName, scenario) \<in> set scs"
    and stat: "scn_statistics scenario = Some stat"
    and step: "\<And>s. marked f i (checkSuccessRate envName scenarioName stat s)"
  shows "marked f i (validateStatistics r)"
proof -
  have one: "\<And>s. marked f i (checkScenario envName (scenarioName, scenario) s)"
    using stat step by (simp add: checkScenario_def)
  have two: "\<And>s. marked f i (checkEnvironment (envName, envResult) s)"
    unfolding checkEnvironment_def prod.case scs option.case
    using sc one checkScenario_marked by (rule fold_establishes)
  show ?thesis
    unfolding validateStatistics_def Let_def r option.case
    using env two checkEnvironment_marked by (rule fold_establishes)
qed

text \<open>
  C8. For a scenario of the result set that reports the success rate \<open>x\<close>: when
  \<open>x < 80\<close> the success-rate check appends a \<open>low_success_rate\<close> issue of severity
  \<open>error\<close> and sets \<open>passed = false\<close>, so the statistics sub-report of the run holds the
  issue and has failed; when \<open>80 \<le> x < 95\<close> the check appends the issue with severity
  \<open>warning\<close> and leaves \<open>passed\<close> as it was; when \<open>x \<ge> 95\<close> the check changes
  nothing. The fail boundary is strict less-than 80: 79.9 fails, 80 does not.
\<close>

theorem success_rate_boundary:
  assumes r: "results r = Some envs"
    and env: "(envName, envResult) \<in> set envs"
    and scs: "scenarios envResult = Some scs"
    and sc: "(scenarioName, scenario) \<in> set scs"
    and stat: "scn_statistics scenario = Some stat"
    and rate: "map_of stat ''successRate'' = Some (Scalar (Fin x))"
  shows "(x < 80 \<longrightarrow>
            (\<forall>s. issues (checkSuccessRate envName scenarioName stat s)
                   = issues s @ [low_success_rate_issue envName scenarioName (Fin x) ''error'']
                 \<and> \<not> passed (checkSuccessRate envName scenarioName stat s))
            \<and> low_success_rate_issue envName scenarioName (Fin x) ''error''
                 \<in> set (issues (validateStatistics r))
            \<and> \<not> passed (validateStatistics r))
       \<and> (80 \<le> x \<and> x < 95 \<longrightarrow>
            (\<forall>s. issues (checkSuccessRate envName scenarioName stat s)
                   = issues s @ [low_success_rate_issue envName scenarioName (Fin x) ''warning'']
                 \<and> passed (checkSuccessRate envName scenarioName stat s) = passed s)
            \<and> low_success_rate_issue envName scenarioName (Fin x) ''warning''
                 \<in> set (issues (validateStatistics r)))
       \<and> (95 \<le> x \<longrightarrow> (\<forall>s. checkSuccessRate envName scenarioName stat s = s))"
proof (intro conjI impI allI)
  fix s
  assume x: "x < 80"
  show "issues (checkSuccessRate envName scenarioName stat s)
          = issues s @ [low_success_rate_issue envName scenarioName (Fin x) ''error'']"
    using rate x by (rule checkSuccessRate_low(1))
  show "\<not> passed (checkSuccessRate envName scenarioName stat s)"
    using rate x by (rule checkSuccessRate_low(2))
next
  assume x: "x < 80"
  have step: "marked True (low_success_rate_issue envName scenarioName (Fin x) ''error'')
                (checkSuccessRate envName scenarioName stat s)" for s
    using checkSuccessRate_low(1,2) [OF rate x] by (simp add: marked_def)
  have m: "marked True (low_success_rate_issue envName scenarioName (Fin x) ''error'')
             (validateStatistics r)"
    using r env scs sc stat step by (rule validateStatistics_marked)
  show "low_success_rate_issue envName scenarioName (Fin x) ''error''
          \<in> set (issues (validateStatistics r))"
    using m by (simp add: marked_def)
  show "\<not> passed (validateStatistics r)"
    using m by (simp add: marked_def)
next
  fix s
  assume x: "80 \<le> x \<and> x < 95"
  show "issues (checkSuccessRate envName scenarioName stat s)
          = issues s @ [low_success_rate_issue envName scenarioName (Fin x) ''warning'']"
    using rate x by (simp add: checkSuccessRate_mid(1))
  show "passed (checkSuccessRate envName scenarioName stat s) = passed s"
    using rate x by (simp add: checkSuccessRate_mid(2))
next
  assume x: "80 \<le> x \<and> x < 95"
  have step: "marked False (low_success_rate_issue envName scenarioName (Fin x) ''warning'')
                (checkSuccessRate envName scenarioName stat s)" for s
    using rate x by (simp add: marked_def checkSuccessRate_mid(1))
  have m: "marked False (low_success_rate_issue envName scenarioName (Fin x) ''warning'')
             (validateStatistics r)"
    using r env scs sc stat step by (rule validateStatistics_marked)
  show "low_success_rate_issue envName scenarioName (Fin x) ''warning''
          \<in> set (issues (validateStatistics r))"
    using m by (simp add: marked_def)
next
  fix s
  assume "95 \<le> x"
  with rate show "checkSuccessRate envName scenarioName stat s = s"
    by (rule checkSuccessRate_high)
qed

theorem success_rate_boundary_witness:
  "low_success_rate_issue ''production'' ''cold-start'' (Fin (799 / 10)) ''error''
     \<in> set (issues (validateStatistics (rate_run (799 / 10))))
   \<and> \<not> passed (validateStatistics (rate_run (799 / 10)))
   \<and> low_success_rate_issue ''production'' ''cold-start'' (Fin 80) ''warning''
     \<in> set (issues (validateStatistics (rate_run 80)))
   \<and> passed (validateStatistics (rate_run 80))
   \<and> validateStatistics (rate_run 95)
       = \<lparr>passed = True, issues = [], warnings = [],
          totalMetrics = 0, reliableMetrics = 0, unstableMetrics = 0\<rparr>"
proof -
  let ?stat = "\<lambda>x. [(''successRate'', Scalar (Fin x))]"
  let ?sc = "\<lambda>x. \<lparr>scn_statistics = Some (?stat x)\<rparr>"
  let ?scs = "\<lambda>x. [(''cold-start'', ?sc x)]"
  let ?env = "\<lambda>x. \<lparr>infrastructure_of = None, scenarios = Some (?scs x)\<rparr>"
  have h1: "results (rate_run x) = Some [(''production'', ?env x)]" for x
    by (simp add: rate_run_def)
  have h2: "(''production'', ?env x) \<in> set [(''production'', ?env x)]" for x by simp
  have h3: "scenarios (?env x) = Some (?scs x)" for x by simp
  have h4: "(''cold-start'', ?sc x) \<in> set (?scs x)" for x by simp
  have h5: "scn_statistics (?sc x) = Some (?stat x)" for x by simp
  have h6: "map_of (?stat x) ''successRate'' = Some (Scalar (Fin x))" for x by simp
  have lo: "(799 / 10 :: real) < 80" by simp
  have mid: "(80 :: real) \<le> 80 \<and> (80 :: real) < 95" by simp
  have hi: "(95 :: real) \<le> 95" by simp
  note t1 = success_rate_boundary [OF h1 h2 h3 h4 h5 h6, of "799 / 10"]
  note t2 = success_rate_boundary [OF h1 h2 h3 h4 h5 h6, of 80]
  note t3 = success_rate_boundary [OF h1 h2 h3 h4 h5 h6, of 95]
  have a: "low_success_rate_issue ''production'' ''cold-start'' (Fin (799 / 10)) ''error''
     \<in> set (issues (validateStatistics (rate_run (799 / 10))))
     \<and> \<not> passed (validateStatistics (rate_run (799 / 10)))"
    using t1 lo by blast
  have b: "low_success_rate_issue ''production'' ''cold-start'' (Fin 80) ''warning''
     \<in> set (issues (validateStatistics (rate_run 80)))"
    using t2 mid by blast
  have c: "passed (validateStatistics (rate_run 80))"
    using t2 mid
    by (simp add: validateStatistics_def rate_run_def checkEnvironment_def checkScenario_def
        checkMetric_def)
  have d: "checkSuccessRate ''production'' ''cold-start'' (?stat 95) s = s" for s
    using t3 hi by blast
  have e: "validateStatistics (rate_run 95)
       = \<lparr>passed = True, issues = [], warnings = [],
          totalMetrics = 0, reliableMetrics = 0, unstableMetrics = 0\<rparr>"
    using d
    by (simp add: validateStatistics_def rate_run_def checkEnvironment_def checkScenario_def
        checkMetric_def)
  show ?thesis using a b c e by blast
qed

section \<open>A result set compared with itself\<close>

lemma toFixed_zero: "toFixed d 0 = 0"
  by (simp add: toFixed_def)

lemma percent_self:
  "percent (change (performStatisticalTest x x)) = Fin 0
   \<or> percent (change (performStatisticalTest x x)) = NaN"
  by (cases "mean x") (simp_all add: percent_eq js_gt_def js_sub_def toFixed_zero)

lemma percent_self_small:
  "\<not> js_gt (js_abs (percent (change (performStatisticalTest x x)))) (Fin 5)"
  using percent_self [of x] by (auto simp add: js_gt_def)

lemma metricStep_small:
  assumes "\<not> js_gt (js_abs (percent (change r))) (Fin 5)"
  shows "regressions (metricStep sn (m, r) s) = regressions s"
    and "improvements (metricStep sn (m, r) s) = improvements s"
  using assms by (simp_all add: metricStep_def Let_def)

lemma fold_metricStep_small:
  assumes "\<forall>(m, r) \<in> set stat. \<not> js_gt (js_abs (percent (change r))) (Fin 5)"
  shows "regressions (fold (metricStep sn) stat s) = regressions s
       \<and> improvements (fold (metricStep sn) stat s) = improvements s"
  using assms
proof (induction stat arbitrary: s)
  case Nil
  then show ?case by simp
next
  case (Cons e stat)
  obtain m r where e: "e = (m, r)" by (cases e)
  have small: "\<not> js_gt (js_abs (percent (change r))) (Fin 5)" using Cons.prems e by simp
  have rest: "\<forall>(m, r) \<in> set stat. \<not> js_gt (js_abs (percent (change r))) (Fin 5)"
    using Cons.prems by simp
  show ?case
    using Cons.IH [OF rest, of "metricStep sn (m, r) s"] metricStep_small [OF small]
    by (simp add: e)
qed

lemma fold_scenarioStep_small:
  assumes "\<forall>(sn, stat) \<in> set scs. \<forall>(m, r) \<in> set stat.
             \<not> js_gt (js_abs (percent (change r))) (Fin 5)"
  shows "regressions (fold scenarioStep scs s) = regressions s
       \<and> improvements (fold scenarioStep scs s) = improvements s"
  using assms
proof (induction scs arbitrary: s)
  case Nil
  then show ?case by simp
next
  case (Cons e scs)
  obtain sn stat where e: "e = (sn, stat)" by (cases e)
  have small: "\<forall>(m, r) \<in> set stat. \<not> js_gt (js_abs (percent (change r))) (Fin 5)"
    using Cons.prems e by simp
  have rest: "\<forall>(sn, stat) \<in> set scs. \<forall>(m, r) \<in> set stat.
             \<not> js_gt (js_abs (percent (change r))) (Fin 5)"
    using Cons.prems by simp
  show ?case
    using Cons.IH [OF rest, of "scenarioStep e s"] fold_metricStep_small [OF small, of sn s]
    by (simp add: e scenarioStep_def)
qed

lemma same_lookup_metric:
  "(case (a, a) of (Some (Metric x), Some (Metric y)) \<Rightarrow> [(m, f x y)] | _ \<Rightarrow> [])
     = (case a of Some (Metric x) \<Rightarrow> [(m, f x x)] | _ \<Rightarrow> [])"
  by (simp split: option.splits stat_value.splits)

lemma same_lookup_scenario:
  "(case (a, a) of (Some x, Some y) \<Rightarrow> [(m, f x y)] | _ \<Rightarrow> [])
     = (case a of Some x \<Rightarrow> [(m, f x x)] | _ \<Rightarrow> [])"
  by (simp split: option.splits)

lemma compareStatistics_self:
  "(m, r) \<in> set (compareStatistics st st) \<Longrightarrow> \<exists>x::stats. r = performStatisticalTest x x"
  unfolding compareStatistics_def Let_def same_lookup_metric
  by (auto split: option.splits stat_value.splits)

lemma compareScenarios_self:
  assumes "(sn, stat) \<in> set (compareScenarios b b)" and "(m, r) \<in> set stat"
  shows "\<exists>x::stats. r = performStatisticalTest x x"
proof -
  from assms(1) obtain sc where "stat = compareScenario sc sc"
    unfolding compareScenarios_def Let_def same_lookup_scenario
    by (auto split: option.splits)
  then have "stat = [] \<or> (\<exists>st. stat = compareStatistics st st)"
    by (auto simp add: compareScenario_def split: option.splits)
  then show ?thesis using assms(2) compareStatistics_self by auto
qed

lemma js_sub_self: "js_sub x x = Fin 0 \<or> js_sub x x = NaN"
  by (cases x) (simp_all add: js_sub_def)

lemma toNumber_sub_self:
  "js_sub (toNumber v) (toNumber v) = Fin 0 \<or> js_sub (toNumber v) (toNumber v) = NaN"
  by (rule js_sub_self)

lemma infra_self_quiet:
  "compareCdn x x \<in> {None, Some ''neutral''}"
  "compareCompression y y \<in> {None, Some ''neutral''}"
  "compareProtocols z z \<in> {None, Some ''neutral''}"
  "compareCaching w w \<in> {None, Some ''neutral''}"
proof -
  show "compareCdn x x \<in> {None, Some ''neutral''}"
    by (simp add: compareCdn_def assessCdnImpact_def split: option.splits)
  show "compareProtocols z z \<in> {None, Some ''neutral''}"
    by (simp add: compareProtocols_def assessProtocolImpact_def split: option.splits)
  show "compareCaching w w \<in> {None, Some ''neutral''}"
  proof (cases w)
    case None
    then show ?thesis by (simp add: compareCaching_def)
  next
    case (Some a)
    then show ?thesis
      using js_sub_self [of "cache_effectiveness a"]
      by (auto simp add: compareCaching_def js_gt_def Let_def)
  qed
  show "compareCompression y y \<in> {None, Some ''neutral''}"
  proof (cases y)
    case None
    then show ?thesis by (simp add: compareCompression_def)
  next
    case (Some a)
    then show ?thesis
      by (cases "cmp_ratio a")
         (auto simp add: compareCompression_def assessCompressionImpact_def js_gt_def js_sub_def)
  qed
qed

lemma security_self_quiet:
  "compareSecurity u u = Inr i \<Longrightarrow> i \<in> {None, Some ''neutral''}"
proof (cases u)
  case None
  assume "compareSecurity u u = Inr i"
  then show ?thesis using None by (simp add: compareSecurity_def)
next
  case (Some a)
  assume "compareSecurity u u = Inr i"
  then show ?thesis
    using Some toNumber_sub_self [of "sec_score a"]
    by (auto simp add: compareSecurity_def js_gt_def Let_def split: sum.splits)
qed

text \<open>The self-comparison raises exactly when a security part has no \<open>headers\<close>.\<close>

lemma security_self_throws:
  "compareSecurity u u = Inl TypeError \<longleftrightarrow> (\<exists>a. u = Some a \<and> sec_headers a = None)"
  by (cases u)
     (auto simp add: compareSecurity_def compareSecurityHeaders_def Let_def
        split: sum.splits option.splits)

lemma infraStep_quiet: "i \<in> {None, Some ''neutral''} \<Longrightarrow> infraStep (c, i) s = s"
  by (auto simp add: infraStep_def)

lemma fold_infraStep_self:
  assumes "compareInfrastructure b b = Inr infra"
  shows "fold infraStep infra s = s"
proof -
  have q: "infraStep (c, compareCdn x x) t = t"
    "infraStep (c, compareCompression y y) t = t"
    "infraStep (c, compareProtocols z z) t = t"
    "infraStep (c, compareCaching w w) t = t" for c x y z w t
    using infra_self_quiet by (simp_all only: infraStep_quiet)
  from assms obtain i where i: "compareSecurity (security b) (security b) = Inr i"
    and infra: "infra = [(''cdn'', compareCdn (cdn b) (cdn b)),
               (''compression'', compareCompression (compression b) (compression b)),
               (''protocols'', compareProtocols (protocols b) (protocols b)),
               (''security'', i),
               (''caching'', compareCaching (caching b) (caching b))]"
    by (auto simp add: compareInfrastructure_def split: sum.splits)
  have "infraStep (c, i) t = t" for c t
    using security_self_quiet [OF i] by (rule infraStep_quiet)
  then show ?thesis by (simp add: infra q)
qed

lemma infraStep_overallImpact: "overallImpact (infraStep e s) = overallImpact s"
  by (cases e) (auto simp add: infraStep_def split: option.splits)

lemma metricStep_overallImpact: "overallImpact (metricStep sn e s) = overallImpact s"
  by (cases e) (auto simp add: metricStep_def Let_def)

lemma scenarioStep_overallImpact: "overallImpact (scenarioStep e s) = overallImpact s"
proof -
  have "overallImpact (fold (metricStep sn) stat s) = overallImpact s" for sn stat
    by (induction stat arbitrary: s) (simp_all add: metricStep_overallImpact)
  then show ?thesis by (cases e) (simp add: scenarioStep_def)
qed

lemma summary_state_overallImpact: "overallImpact (summary_state a) = ''neutral''"
proof -
  have i: "overallImpact (fold infraStep infra s) = overallImpact s" for infra s
    by (induction infra arbitrary: s) (simp_all add: infraStep_overallImpact)
  have sc: "overallImpact (fold scenarioStep scs s) = overallImpact s" for scs s
    by (induction scs arbitrary: s) (simp_all add: scenarioStep_overallImpact)
  show ?thesis
    by (simp add: summary_state_def Let_def i sc split: option.splits)
qed

lemma summary_state_self:
  assumes "analyse R R = Inr a"
  shows "regressions (summary_state a) = [] \<and> improvements (summary_state a) = []"
proof -
  let ?s0 = "\<lparr> overallImpact = ''neutral'', significantChanges = [], regressions = [],
                 improvements = [], stability = ''stable'' \<rparr>"
  have s1: "(case an_infrastructure a of None \<Rightarrow> ?s0
             | Some infra \<Rightarrow> fold infraStep infra ?s0) = ?s0"
    using assms
    by (auto simp add: analyse_def Let_def fold_infraStep_self split: option.splits sum.splits)
  have small: "\<forall>(sn, stat) \<in> set (compareScenarios b b). \<forall>(m, r) \<in> set stat.
             \<not> js_gt (js_abs (percent (change r))) (Fin 5)" for b
    using compareScenarios_self percent_self_small by fastforce
  have sc: "an_scenarios a = None \<or> (\<exists>b. an_scenarios a = Some (compareScenarios b b))"
    using assms by (auto simp add: analyse_def Let_def split: option.splits sum.splits)
  show ?thesis
    unfolding summary_state_def Let_def s1
    using sc fold_scenarioStep_small [OF small, of _ ?s0]
    by auto
qed

text \<open>
  A result set compared with itself, when the comparison does not raise: no regression
  and no improvement is listed and the overall impact is neutral, whatever the statistics
  are.
\<close>

lemma identical_runs_lists:
  assumes "compareEnvironments R R = Inr s"
  shows "regressions s = [] \<and> improvements s = [] \<and> overallImpact s = ''neutral''"
proof -
  from assms obtain a where a: "analyse R R = Inr a" and s: "s = generateSummary a"
    by (auto simp add: compareEnvironments_def split: sum.splits)
  have l: "regressions (summary_state a) = []" "improvements (summary_state a) = []"
    using summary_state_self [OF a] by simp_all
  have o: "overallImpact (summary_state a) = ''neutral''"
    by (simp add: summary_state_overallImpact)
  have g: "overallImpact (generateSummary a) = ''neutral''"
    using l o by (simp add: generateSummary_def summary_state_def Let_def)
  show ?thesis
    using l g by (simp add: s generateSummary_lists)
qed

text \<open>
  It raises, leaving the summary empty, exactly when both sides carry infrastructure
  data whose security part has no \<open>headers\<close>.
\<close>

lemma identical_runs_throw:
  "compareEnvironments R R = Inl TypeError \<longleftrightarrow>
     (\<exists>i a. infrastructure_of R = Some i \<and> security i = Some a \<and> sec_headers a = None)"
proof -
  have e: "e = TypeError" for e :: error by (cases e) simp
  have "compareEnvironments R R = Inl TypeError \<longleftrightarrow>
          (\<exists>i. infrastructure_of R = Some i
             \<and> compareSecurity (security i) (security i) = Inl TypeError)"
    using e
    by (auto simp add: compareEnvironments_def analyse_def compareInfrastructure_def Let_def
        split: sum.splits option.splits)
  then show ?thesis by (simp add: security_self_throws)
qed

end
